theory Spec2Isabelle
  imports Main "HOL-Library.AList"
begin

section \<open>Python values, exceptions and requests to the collaborators\<close>

text \<open>
  The four component classes (\<open>Model\<close>, \<open>ModelVersion\<close>, \<open>Models\<close>,
  \<open>ModelVersions\<close>) talk to a database client, to the alias utilities, to the object
  store and to \<open>pathvalidate\<close>. None of these is part of the repository, so they are
  parameters of the embedding (the record \<open>world\<close> below). Every request the code
  sends to one of them is appended to a log of type \<open>call list\<close>; a collaborator
  answers as a function of the log so far and of the request, which covers every
  deterministic store, stateful or not.

  An \<open>Optional[str]\<close> is a \<open>string option\<close>; a raised exception is the \<open>Inl\<close>
  of a sum.
\<close>

datatype error =
    InvalidInputException string
  | NoModelException string
  | NoDirectoryException string
  | NoProjectAliasException string
  | DatabaseException string
  | ValidationError string
  | TypeError string
  | ValueError string
  | AttributeError string
  | OtherException string

definition truthy :: "string option \<Rightarrow> bool" where
  \<comment> \<open>Python's \<open>if s:\<close> on an \<open>Optional[str]\<close>: \<open>None\<close> and \<open>""\<close> are false.\<close>
  "truthy s = (case s of None \<Rightarrow> False | Some x \<Rightarrow> x \<noteq> [])"

definition format_str :: "string option \<Rightarrow> string" where
  \<comment> \<open>What an f-string prints for an \<open>Optional[str]\<close>.\<close>
  "format_str s = (case s of None \<Rightarrow> ''None'' | Some x \<Rightarrow> x)"

datatype database = DatabaseType_service

datatype table =
    ServiceTableType_model
  | ServiceTableType_model_version
  | ServiceTableType_directory
  | ServiceTableType_annotation

datatype component_type = COMPONENT_TYPES_model

datatype bucket = OBJECT_STORE_BUCKET_model

datatype arg =
    ArgStr "string option"
  | ArgList "string list option"
  | ArgType component_type

type_synonym kwargs = "(string \<times> arg) list"

datatype call =
    DbQuery database table bool kwargs
      \<comment> \<open>\<open>database_client.query(database, table, fetchone, **kwargs)\<close>\<close>
  | DbDelete database table kwargs
      \<comment> \<open>\<open>database_client.delete(database, table, **kwargs)\<close>\<close>
  | ToProjectComponentId "string option" "string option"
      \<comment> \<open>\<open>to_project_component_id(identifier, project_id)\<close>\<close>
  | DeleteAliasForComponent "string option"
      \<comment> \<open>\<open>delete_alias_for_component(component_id)\<close>\<close>
  | ObjectStoreDeleteDirectory bucket string
      \<comment> \<open>\<open>ObjectStore.delete_directory(bucket, object_store_path)\<close>\<close>
  | ValidateFilename "string option"
      \<comment> \<open>\<open>pathvalidate.validate_filename(name)\<close>\<close>

section \<open>Store rows and entities\<close>

typedecl document
  \<comment> \<open>hyperparameters, metrics and fold metrics: dictionaries this layer never opens\<close>

record ModelRow =
  model_id :: "string option"
  project_id :: "string option"
  name :: "string option"
  latest_version_id :: "string option"
  model_type :: "string option"
  sub_model_type :: "string option"
  description :: "string option"
  directory_id :: "string option"
  created_at :: "int option"
  modified_at :: "int option"

record Model =
  model_id :: "string option"
  project_id :: "string option"
  name :: "string option"
  latest_version_id :: "string option"
  model_type :: "string option"
  sub_model_type :: "string option"
  description :: "string option"
  directory_id :: "string option"
  created_at :: "int option"
  modified_at :: "int option"

record ModelVersionRow =
  model_id :: "string option"
  version :: "string option"
  version_id :: "string option"
  hyperparameters :: "document option"
  metrics :: "document option"
  fold_metrics :: "document option"
  created_at :: "int option"
  modified_at :: "int option"

record ModelVersion =
  model_id :: "string option"
  version :: "string option"
  version_id :: "string option"
  hyperparameters :: "document option"
  metrics :: "document option"
  fold_metrics :: "document option"
  created_at :: "int option"
  modified_at :: "int option"

section \<open>The collaborators\<close>

text \<open>
  Each field answers one kind of request, given the log of the requests sent before
  it. \<open>database_client.query\<close> is split by table and by \<open>fetchone\<close>, because the
  shape of its answer depends on them (one row, or a list of rows); the answer to the
  directory query is never read by the code, so it carries no rows.
\<close>

record world =
  is_alias :: "string option \<Rightarrow> bool"
  to_project_component_id ::
    "call list \<Rightarrow> string option \<Rightarrow> string option \<Rightarrow> error + string option"
  delete_alias_for_component :: "call list \<Rightarrow> string option \<Rightarrow> error + unit"
  query_model_fetchone :: "call list \<Rightarrow> kwargs \<Rightarrow> error + ModelRow"
  query_model_fetchall :: "call list \<Rightarrow> kwargs \<Rightarrow> error + ModelRow list"
  query_model_version_fetchone :: "call list \<Rightarrow> kwargs \<Rightarrow> error + ModelVersionRow"
  query_model_version_fetchall :: "call list \<Rightarrow> kwargs \<Rightarrow> error + ModelVersionRow list"
  query_directory_fetchall :: "call list \<Rightarrow> kwargs \<Rightarrow> error + unit"
  database_delete :: "call list \<Rightarrow> table \<Rightarrow> kwargs \<Rightarrow> error + unit"
  delete_directory :: "call list \<Rightarrow> bucket \<Rightarrow> string \<Rightarrow> error + unit"
  validate_filename :: "call list \<Rightarrow> string option \<Rightarrow> error + unit"
  format_model_type_to_external_model_type :: "string \<Rightarrow> string option"
  format_external_model_type_to_model_type :: "string \<Rightarrow> string option"

section \<open>Running code against the collaborators\<close>

type_synonym 'a io = "call list \<Rightarrow> (error + 'a) \<times> call list"

definition returns :: "'a \<Rightarrow> 'a io" where
  "returns x h = (Inr x, h)"

definition raise :: "error \<Rightarrow> 'a io" where
  "raise e h = (Inl e, h)"

definition bind_io :: "'a io \<Rightarrow> ('a \<Rightarrow> 'b io) \<Rightarrow> 'b io" where
  "bind_io m f h = (case m h of (Inl e, h') \<Rightarrow> (Inl e, h') | (Inr x, h') \<Rightarrow> f x h')"

definition except :: "'a io \<Rightarrow> (error \<Rightarrow> 'a io) \<Rightarrow> 'a io" where
  \<comment> \<open>\<open>try: m  except ... as e: handler e\<close>; a handler re-raises what it does not catch\<close>
  "except m handler h =
     (case m h of (Inl e, h') \<Rightarrow> handler e h' | (Inr x, h') \<Rightarrow> (Inr x, h'))"

definition issue :: "call \<Rightarrow> (call list \<Rightarrow> error + 'a) \<Rightarrow> 'a io" where
  \<comment> \<open>send one request: the collaborator answers from the log so far, the request is logged\<close>
  "issue c answer h = (answer h, h @ [c])"

definition issued :: "'a io \<Rightarrow> call list \<Rightarrow> call list" where
  \<comment> \<open>the requests a run adds to the log\<close>
  "issued m h = drop (length h) (snd (m h))"

section \<open>Library functions of Python the code calls\<close>

definition os_path_join :: "string \<Rightarrow> string \<Rightarrow> string" where
  \<comment> \<open>\<open>posixpath.join(a, b)\<close> on two \<open>str\<close>\<close>
  "os_path_join a b =
     (if b \<noteq> [] \<and> hd b = CHR ''/'' then b
      else if a = [] \<or> last a = CHR ''/'' then a @ b
      else a @ ''/'' @ b)"

definition is_space :: "char \<Rightarrow> bool" where
  \<comment> \<open>the ASCII characters \<open>\s\<close> matches in a \<open>str\<close> pattern\<close>
  "is_space c = ((of_char c :: nat) \<in> {9, 10, 11, 12, 13, 28, 29, 30, 31, 32})"

fun re_search_group1 :: "string \<Rightarrow> string option" where
  \<comment> \<open>\<open>re.search(r"(\[\S*]) (.*)", s)\<close>, then \<open>.group(1)\<close>; \<open>None\<close> when there is no match.
      A match at a \<open>[\<close> is the run of non-space characters from it, which must end in
      \<open>]\<close> and be followed by one blank; the leftmost match is taken.\<close>
  "re_search_group1 [] = None"
| "re_search_group1 (c # cs) =
     (let run = takeWhile (\<lambda>x. \<not> is_space x) (c # cs);
          rest = dropWhile (\<lambda>x. \<not> is_space x) (c # cs)
      in if c = CHR ''['' \<and> 2 \<le> length run \<and> last run = CHR '']''
            \<and> (case rest of [] \<Rightarrow> False | r # _ \<Rightarrow> r = CHR '' '')
         then Some run
         else re_search_group1 cs)"

definition dict_by :: "('r \<Rightarrow> 'k) \<Rightarrow> 'r list \<Rightarrow> ('k \<times> 'r) list" where
  \<comment> \<open>the comprehension \<open>{key(r): r for r in rows}\<close>: a key keeps the place of its first
      row and the value of its last one\<close>
  "dict_by key rows = fold (\<lambda>r d. AList.update (key r) r d) rows []"

section \<open>model.py: class Model\<close>

definition Model_query_fetchone :: "world \<Rightarrow> kwargs \<Rightarrow> ModelRow io" where
  \<comment> \<open>\<open>Model._query(fetchone=True, **kwargs)\<close>\<close>
  "Model_query_fetchone w kw =
     issue (DbQuery DatabaseType_service ServiceTableType_model True kw)
       (\<lambda>h. query_model_fetchone w h kw)"

definition Model_query_fetchall :: "world \<Rightarrow> kwargs \<Rightarrow> ModelRow list io" where
  \<comment> \<open>\<open>Model._query(fetchone=False, **kwargs)\<close>\<close>
  "Model_query_fetchall w kw =
     issue (DbQuery DatabaseType_service ServiceTableType_model False kw)
       (\<lambda>h. query_model_fetchall w h kw)"

definition Model_delete_row :: "world \<Rightarrow> string option \<Rightarrow> unit io" where
  \<comment> \<open>\<open>Model._delete(model_id)\<close>\<close>
  "Model_delete_row w mid =
     issue (DbDelete DatabaseType_service ServiceTableType_model [(''model_id'', ArgStr mid)])
       (\<lambda>h. database_delete w h ServiceTableType_model [(''model_id'', ArgStr mid)])"

definition Model_validate_existing :: "world \<Rightarrow> Model \<Rightarrow> unit io" where
  \<comment> \<open>\<open>Model.validate\<close>, "Existing component validation (model_id is present)"\<close>
  "Model_validate_existing w self =
     (if truthy (Model.model_id self) then
        bind_io (Model_query_fetchone w [(''model_id'', ArgStr (Model.model_id self))])
          (\<lambda>row.
             if truthy (Model.project_id self)
                \<and> Model.project_id self \<noteq> ModelRow.project_id row
             then raise (InvalidInputException
                          ''The model does not belong to the specified project'')
             else if is_alias w (Model.model_id self)
             then raise (InvalidInputException ''Resolve the alias before usage'')
             else returns ())
      else returns ())"

definition Model_validate_name :: "world \<Rightarrow> Model \<Rightarrow> unit io" where
  \<comment> \<open>\<open>Model.validate\<close>, "Check for uniqueness of name" and "Check for validity of name"\<close>
  "Model_validate_name w self =
     (if truthy (Model.name self) then
        bind_io (Model_query_fetchall w [(''project_id'', ArgStr (Model.project_id self))])
          (\<lambda>rows.
             let models = dict_by ModelRow.model_id rows;
                 existing_model_names =
                   [ModelRow.name model. model \<leftarrow> map snd models,
                      ModelRow.model_id model \<noteq> Model.model_id self
                      \<and> truthy (ModelRow.name model)]
             in if Model.name self \<in> set existing_model_names
                then raise (InvalidInputException
                       (''A model with name '' @ format_str (Model.name self)
                          @ '' already exists''))
                else if (case map_of models (Model.model_id self) of
                           None \<Rightarrow> True
                         | Some model \<Rightarrow> Model.name self \<noteq> ModelRow.name model)
                then except
                       (issue (ValidateFilename (Model.name self))
                          (\<lambda>h. validate_filename w h (Model.name self)))
                       (\<lambda>e. case e of
                           ValidationError msg \<Rightarrow>
                             (case re_search_group1 msg of
                                None \<Rightarrow> raise (AttributeError
                                  ''NoneType object has no attribute group'')
                              | Some error_message \<Rightarrow>
                                  raise (InvalidInputException
                                    (''Invalid name: '' @ error_message)))
                         | _ \<Rightarrow> raise e)
                else returns ())
      else returns ())"

definition Model_validate_directory :: "world \<Rightarrow> Model \<Rightarrow> unit io" where
  \<comment> \<open>\<open>Model.validate\<close>, "Directory validation"\<close>
  "Model_validate_directory w self =
     (if truthy (Model.directory_id self) then
        except
          (issue (DbQuery DatabaseType_service ServiceTableType_directory False
                    [(''directory_id'', ArgStr (Model.directory_id self)),
                     (''project_id'', ArgStr (Model.project_id self)),
                     (''type'', ArgType COMPONENT_TYPES_model)])
             (\<lambda>h. query_directory_fetchall w h
                    [(''directory_id'', ArgStr (Model.directory_id self)),
                     (''project_id'', ArgStr (Model.project_id self)),
                     (''type'', ArgType COMPONENT_TYPES_model)]))
          (\<lambda>e. case e of
              NoDirectoryException _ \<Rightarrow>
                raise (InvalidInputException ''Model cannot be in different directory type'')
            | _ \<Rightarrow> raise e)
      else returns ())"

definition Model_validate :: "world \<Rightarrow> Model \<Rightarrow> unit io" where
  "Model_validate w self =
     bind_io (Model_validate_existing w self) (\<lambda>_.
     bind_io (Model_validate_name w self) (\<lambda>_.
     Model_validate_directory w self))"

definition Model_resolve_alias ::
    "world \<Rightarrow> string option \<Rightarrow> string option \<Rightarrow> string option io" where
  "Model_resolve_alias w mid pid =
     (if \<not> is_alias w mid then returns mid
      else if \<not> truthy pid
      then raise (InvalidInputException ''Project must be provided with an alias'')
      else issue (ToProjectComponentId mid pid) (\<lambda>h. to_project_component_id w h mid pid))"

definition Model_resolve_directory_alias ::
    "world \<Rightarrow> string option \<Rightarrow> string option \<Rightarrow> string option io" where
  "Model_resolve_directory_alias w did pid =
     (if \<not> is_alias w did then returns did
      else if \<not> truthy pid
      then raise (InvalidInputException ''Project must be provided with an alias'')
      else issue (ToProjectComponentId did pid) (\<lambda>h. to_project_component_id w h did pid))"

definition Model_from_namedtuple :: "ModelRow \<Rightarrow> Model" where
  "Model_from_namedtuple obj_namedtuple =
     \<lparr> Model.model_id = ModelRow.model_id obj_namedtuple,
       Model.project_id = ModelRow.project_id obj_namedtuple,
       Model.name = ModelRow.name obj_namedtuple,
       Model.latest_version_id = ModelRow.latest_version_id obj_namedtuple,
       Model.model_type = ModelRow.model_type obj_namedtuple,
       Model.sub_model_type = ModelRow.sub_model_type obj_namedtuple,
       Model.description = ModelRow.description obj_namedtuple,
       Model.directory_id = ModelRow.directory_id obj_namedtuple,
       Model.created_at = ModelRow.created_at obj_namedtuple,
       Model.modified_at = ModelRow.modified_at obj_namedtuple \<rparr>"

definition Model_pull :: "world \<Rightarrow> string option \<Rightarrow> string option \<Rightarrow> Model io" where
  "Model_pull w mid pid =
     (if \<not> truthy mid then raise (NoModelException ''Model ID must be provided'')
      else bind_io (Model_resolve_alias w mid pid) (\<lambda>mid'.
           bind_io (Model_query_fetchone w [(''model_id'', ArgStr mid')]) (\<lambda>row.
           returns (Model_from_namedtuple row))))"

section \<open>model_version.py: class ModelVersion\<close>

definition ModelVersion_query_fetchone :: "world \<Rightarrow> kwargs \<Rightarrow> ModelVersionRow io" where
  \<comment> \<open>\<open>ModelVersion._query(fetchone=True, **kwargs)\<close>\<close>
  "ModelVersion_query_fetchone w kw =
     issue (DbQuery DatabaseType_service ServiceTableType_model_version True kw)
       (\<lambda>h. query_model_version_fetchone w h kw)"

definition ModelVersion_query_fetchall :: "world \<Rightarrow> kwargs \<Rightarrow> ModelVersionRow list io" where
  \<comment> \<open>\<open>ModelVersion._query(fetchone=False, **kwargs)\<close>\<close>
  "ModelVersion_query_fetchall w kw =
     issue (DbQuery DatabaseType_service ServiceTableType_model_version False kw)
       (\<lambda>h. query_model_version_fetchall w h kw)"

definition ModelVersion_delete_row ::
    "world \<Rightarrow> string option \<Rightarrow> string option \<Rightarrow> unit io" where
  \<comment> \<open>\<open>ModelVersion._delete(version_id, model_id)\<close>\<close>
  "ModelVersion_delete_row w vid mid =
     issue (DbDelete DatabaseType_service ServiceTableType_model_version
              [(''version_id'', ArgStr vid), (''model_id'', ArgStr mid)])
       (\<lambda>h. database_delete w h ServiceTableType_model_version
              [(''version_id'', ArgStr vid), (''model_id'', ArgStr mid)])"

definition ModelVersion_validate_existing :: "world \<Rightarrow> ModelVersion \<Rightarrow> unit io" where
  \<comment> \<open>\<open>ModelVersion.validate\<close>, "Existing component validation (version_id is present)"\<close>
  "ModelVersion_validate_existing w self =
     (if truthy (ModelVersion.version_id self) then
        bind_io (ModelVersion_query_fetchone w
                   [(''version_id'', ArgStr (ModelVersion.version_id self))])
          (\<lambda>row.
             if truthy (ModelVersion.model_id self)
                \<and> ModelVersion.model_id self \<noteq> ModelVersionRow.model_id row
             then raise (InvalidInputException
                          ''The model version does not belong to the specified model'')
             else if is_alias w (ModelVersion.version_id self)
             then raise (InvalidInputException ''Resolve the alias before usage'')
             else returns ())
      else returns ())"

definition ModelVersion_validate_version :: "world \<Rightarrow> ModelVersion \<Rightarrow> unit io" where
  \<comment> \<open>\<open>ModelVersion.validate\<close>, "Check for uniqueness of name" and
      "Check for validity of version"\<close>
  "ModelVersion_validate_version w self =
     (if truthy (ModelVersion.version self) then
        bind_io (ModelVersion_query_fetchall w
                   [(''model_id'', ArgStr (ModelVersion.model_id self))])
          (\<lambda>rows.
             let model_versions = dict_by ModelVersionRow.version_id rows;
                 existing_versions =
                   [ModelVersionRow.version model_version.
                      model_version \<leftarrow> map snd model_versions,
                      ModelVersionRow.version_id model_version \<noteq> ModelVersion.version_id self
                      \<and> truthy (ModelVersionRow.version model_version)]
             in if ModelVersion.version self \<in> set existing_versions
                then raise (InvalidInputException
                       (''A model version '' @ format_str (ModelVersion.version self)
                          @ '' already exists''))
                else if (case map_of model_versions (ModelVersion.version_id self) of
                           None \<Rightarrow> True
                         | Some model_version \<Rightarrow>
                             ModelVersion.version self \<noteq> ModelVersionRow.version model_version)
                then except
                       (issue (ValidateFilename (ModelVersion.version self))
                          (\<lambda>h. validate_filename w h (ModelVersion.version self)))
                       (\<lambda>e. case e of
                           ValidationError msg \<Rightarrow>
                             (case re_search_group1 msg of
                                None \<Rightarrow> raise (AttributeError
                                  ''NoneType object has no attribute group'')
                              | Some error_message \<Rightarrow>
                                  raise (InvalidInputException
                                    (''Invalid Version: '' @ error_message)))
                         | _ \<Rightarrow> raise e)
                else returns ())
      else returns ())"

definition ModelVersion_validate :: "world \<Rightarrow> ModelVersion \<Rightarrow> unit io" where
  "ModelVersion_validate w self =
     bind_io (ModelVersion_validate_existing w self) (\<lambda>_.
     ModelVersion_validate_version w self)"

definition ModelVersion_resolve_alias ::
    "world \<Rightarrow> string option \<Rightarrow> string option \<Rightarrow> string option io" where
  "ModelVersion_resolve_alias w vid pid =
     (if \<not> is_alias w vid then returns vid
      else if \<not> truthy pid
      then raise (InvalidInputException ''Project must be provided with an alias'')
      else issue (ToProjectComponentId vid pid) (\<lambda>h. to_project_component_id w h vid pid))"

definition ModelVersion_from_namedtuple :: "ModelVersionRow \<Rightarrow> ModelVersion" where
  "ModelVersion_from_namedtuple obj_namedtuple =
     \<lparr> ModelVersion.model_id = ModelVersionRow.model_id obj_namedtuple,
       ModelVersion.version = ModelVersionRow.version obj_namedtuple,
       ModelVersion.version_id = ModelVersionRow.version_id obj_namedtuple,
       ModelVersion.hyperparameters = ModelVersionRow.hyperparameters obj_namedtuple,
       ModelVersion.metrics = ModelVersionRow.metrics obj_namedtuple,
       ModelVersion.fold_metrics = ModelVersionRow.fold_metrics obj_namedtuple,
       ModelVersion.created_at = ModelVersionRow.created_at obj_namedtuple,
       ModelVersion.modified_at = ModelVersionRow.modified_at obj_namedtuple \<rparr>"

definition ModelVersion_pull ::
    "world \<Rightarrow> string option \<Rightarrow> string option \<Rightarrow> string option \<Rightarrow> ModelVersion io" where
  "ModelVersion_pull w vid mid pid =
     (if \<not> truthy vid then raise (NoModelException ''Version ID must be provided'')
      else bind_io (ModelVersion_resolve_alias w vid pid) (\<lambda>vid'.
           bind_io (ModelVersion_query_fetchone w
                      [(''version_id'', ArgStr vid'), (''model_id'', ArgStr mid)]) (\<lambda>row.
           returns (ModelVersion_from_namedtuple row))))"

definition ModelVersion_delete :: "world \<Rightarrow> ModelVersion \<Rightarrow> unit io" where
  "ModelVersion_delete w self =
     (if is_alias w (ModelVersion.version_id self)
      then raise (InvalidInputException ''Resolve the alias before usage'')
      else bind_io (ModelVersion_pull w (ModelVersion.version_id self)
                      (ModelVersion.model_id self) None) (\<lambda>model_version.
           bind_io (ModelVersion_delete_row w (ModelVersion.version_id model_version)
                      (ModelVersion.model_id model_version)) (\<lambda>_.
           issue (DeleteAliasForComponent (ModelVersion.version_id model_version))
             (\<lambda>h. delete_alias_for_component w h (ModelVersion.version_id model_version)))))"

section \<open>model_versions.py: class ModelVersions\<close>

definition ModelVersions_query ::
    "world \<Rightarrow> string option \<Rightarrow> string list option \<Rightarrow> ModelVersionRow list io" where
  \<comment> \<open>\<open>ModelVersions._query(model_id, model_ids)\<close>\<close>
  "ModelVersions_query w mid mids =
     issue (DbQuery DatabaseType_service ServiceTableType_model_version False
              [(''model_id'', ArgStr mid), (''model_ids'', ArgList mids)])
       (\<lambda>h. query_model_version_fetchall w h
              [(''model_id'', ArgStr mid), (''model_ids'', ArgList mids)])"

definition ModelVersions_pull ::
    "world \<Rightarrow> string option \<Rightarrow> string list option \<Rightarrow> ModelVersion list io" where
  "ModelVersions_pull w mid mids =
     (if \<not> truthy mid \<and> (mids = None \<or> mids = Some [])
      then raise (InvalidInputException ''Atleast one Model ID must be provided'')
      else bind_io (ModelVersions_query w mid mids) (\<lambda>versions.
           returns (map ModelVersion_from_namedtuple versions)))"

fun ModelVersions_delete_each :: "world \<Rightarrow> ModelVersion list \<Rightarrow> unit io" where
  \<comment> \<open>\<open>for version in versions.versions: version.delete(database_client)\<close>\<close>
  "ModelVersions_delete_each w [] = returns ()"
| "ModelVersions_delete_each w (ver # versions) =
     bind_io (ModelVersion_delete w ver) (\<lambda>_. ModelVersions_delete_each w versions)"

definition ModelVersions_delete :: "world \<Rightarrow> string option \<Rightarrow> unit io" where
  "ModelVersions_delete w mid =
     bind_io (ModelVersions_pull w mid None) (\<lambda>versions.
     ModelVersions_delete_each w versions)"

section \<open>model.py: deleting a Model\<close>

definition Model_delete :: "world \<Rightarrow> Model \<Rightarrow> unit io" where
  "Model_delete w self =
     (if is_alias w (Model.model_id self)
      then raise (InvalidInputException ''Resolve the alias before usage'')
      else bind_io (Model_pull w (Model.model_id self) None) (\<lambda>model.
           bind_io (ModelVersions_delete w (Model.model_id self)) (\<lambda>_.
           bind_io (Model_delete_row w (Model.model_id model)) (\<lambda>_.
           (case (Model.project_id model, Model.model_id model) of
              (Some a, Some b) \<Rightarrow>
                bind_io (issue (ObjectStoreDeleteDirectory OBJECT_STORE_BUCKET_model
                                  (os_path_join a b))
                           (\<lambda>h. delete_directory w h OBJECT_STORE_BUCKET_model
                                  (os_path_join a b))) (\<lambda>_.
                bind_io (issue (DbDelete DatabaseType_service ServiceTableType_annotation
                                  [(''component_type'', ArgType COMPONENT_TYPES_model),
                                   (''component_id'', ArgStr (Model.model_id model))])
                           (\<lambda>h. database_delete w h ServiceTableType_annotation
                                  [(''component_type'', ArgType COMPONENT_TYPES_model),
                                   (''component_id'', ArgStr (Model.model_id model))])) (\<lambda>_.
                issue (DeleteAliasForComponent (Model.model_id model))
                  (\<lambda>h. delete_alias_for_component w h (Model.model_id model))))
            | _ \<Rightarrow> raise (TypeError
                ''expected str, bytes or os.PathLike object, not NoneType''))))))"

section \<open>models.py: class Models\<close>

definition Models_resolve_directory_alias ::
    "world \<Rightarrow> string option \<Rightarrow> string option \<Rightarrow> string option io" where
  "Models_resolve_directory_alias w did pid =
     (if \<not> is_alias w did then returns did
      else if \<not> truthy pid
      then raise (InvalidInputException ''Project must be provided with an alias'')
      else issue (ToProjectComponentId did pid) (\<lambda>h. to_project_component_id w h did pid))"

definition Models_query ::
    "world \<Rightarrow> string option \<Rightarrow> string option \<Rightarrow> ModelRow list io" where
  \<comment> \<open>\<open>Models._query(project_id, directory_id)\<close>\<close>
  "Models_query w pid did =
     issue (DbQuery DatabaseType_service ServiceTableType_model False
              [(''project_id'', ArgStr pid), (''directory_id'', ArgStr did)])
       (\<lambda>h. query_model_fetchall w h
              [(''project_id'', ArgStr pid), (''directory_id'', ArgStr did)])"

definition Models_pull :: "world \<Rightarrow> string option \<Rightarrow> string option \<Rightarrow> Model list io" where
  "Models_pull w pid did =
     (if \<not> truthy pid then raise (InvalidInputException ''Project ID must be provided'')
      else bind_io (if truthy did then Models_resolve_directory_alias w did pid
                    else returns None) (\<lambda>did'.
           bind_io (Models_query w pid did') (\<lambda>rows.
           returns (map Model_from_namedtuple rows))))"

fun Models_delete_each :: "world \<Rightarrow> Model list \<Rightarrow> unit io" where
  \<comment> \<open>\<open>for model in models.models: model.delete(database_client)\<close>\<close>
  "Models_delete_each w [] = returns ()"
| "Models_delete_each w (model # models) =
     bind_io (Model_delete w model) (\<lambda>_. Models_delete_each w models)"

definition Models_delete :: "world \<Rightarrow> string option \<Rightarrow> string option \<Rightarrow> unit io" where
  "Models_delete w pid did =
     bind_io (Models_pull w pid did) (\<lambda>models. Models_delete_each w models)"

section \<open>model.py: the wire form of a Model\<close>

text \<open>
  The message classes \<open>PyprModel\<close> and \<open>PyprDirectory\<close> are generated from a proto
  file that is not part of the repository. A field of such a message holds a string,
  never \<open>None\<close>: a field that is left out, or given as \<open>None\<close>, reads back as the empty
  string. The timestamps are string fields (the code writes \<open>str(...)\<close> into them and
  reads them with \<open>int(...)\<close>).
\<close>

record PyprDirectory =
  directory_id :: string
  type :: component_type

record PyprModel =
  model_id :: string
  name :: string
  project_id :: string
  latest_version_id :: string
  model_type :: string
  sub_model_type :: string
  description :: string
  directory :: PyprDirectory
  created_at :: string
  modified_at :: string

definition proto_field :: "string option \<Rightarrow> string" where
  \<comment> \<open>what a message constructor stores for a keyword argument\<close>
  "proto_field v = (case v of None \<Rightarrow> [] | Some x \<Rightarrow> x)"

definition or_None :: "string \<Rightarrow> string option" where
  \<comment> \<open>\<open>x if x else None\<close> on a \<open>str\<close>\<close>
  "or_None x = (if x \<noteq> [] then Some x else None)"

definition digit_char :: "nat \<Rightarrow> char" where
  "digit_char d = ''0123456789'' ! d"

fun str_nat :: "nat \<Rightarrow> string" where
  "str_nat n = (if n < 10 then [digit_char n] else str_nat (n div 10) @ [digit_char (n mod 10)])"

declare str_nat.simps [simp del]

definition py_str :: "int option \<Rightarrow> string" where
  \<comment> \<open>\<open>str(x)\<close> on an \<open>Optional[int]\<close>\<close>
  "py_str x =
     (case x of
        None \<Rightarrow> ''None''
      | Some i \<Rightarrow> if i < 0 then CHR ''-'' # str_nat (nat (- i)) else str_nat (nat i))"

definition is_digit :: "char \<Rightarrow> bool" where
  "is_digit c = (48 \<le> (of_char c :: nat) \<and> (of_char c :: nat) \<le> 57)"

definition strip :: "string \<Rightarrow> string" where
  "strip s = rev (dropWhile is_space (rev (dropWhile is_space s)))"

fun parse_digits :: "nat \<Rightarrow> bool \<Rightarrow> string \<Rightarrow> nat option" where
  \<comment> \<open>decimal digits, single underscores allowed between two digits\<close>
  "parse_digits acc after_digit [] = (if after_digit then Some acc else None)"
| "parse_digits acc after_digit (c # cs) =
     (if is_digit c then parse_digits (acc * 10 + (of_char c - 48)) True cs
      else if c = CHR ''_'' \<and> after_digit then parse_digits acc False cs
      else None)"

definition py_int :: "string \<Rightarrow> error + int" where
  \<comment> \<open>\<open>int(s)\<close> on an ASCII \<open>str\<close>: blanks around, a sign, decimal digits\<close>
  "py_int s =
     (let t = strip s;
          negative = (t \<noteq> [] \<and> hd t = CHR ''-'');
          body = (if t \<noteq> [] \<and> (hd t = CHR ''-'' \<or> hd t = CHR ''+'') then tl t else t)
      in case parse_digits 0 False body of
           None \<Rightarrow> Inl (ValueError ''invalid literal for int() with base 10'')
         | Some n \<Rightarrow> Inr (if negative then - int n else int n))"

definition pure_result :: "error + 'a \<Rightarrow> 'a io" where
  \<comment> \<open>a computation that sends no request: it returns or raises\<close>
  "pure_result r h = (r, h)"

definition Model_to_proto :: "world \<Rightarrow> Model \<Rightarrow> PyprModel" where
  "Model_to_proto w self =
     (let model_type =
            (case Model.model_type self of
               None \<Rightarrow> None
             | Some t \<Rightarrow> if t \<noteq> [] then format_model_type_to_external_model_type w t
                         else None);
          directory = \<lparr> PyprDirectory.directory_id = proto_field (Model.directory_id self),
                        PyprDirectory.type = COMPONENT_TYPES_model \<rparr>
      in \<lparr> PyprModel.model_id = proto_field (Model.model_id self),
           PyprModel.name = proto_field (Model.name self),
           PyprModel.project_id = proto_field (Model.project_id self),
           PyprModel.latest_version_id = proto_field (Model.latest_version_id self),
           PyprModel.model_type = proto_field model_type,
           PyprModel.sub_model_type = proto_field (Model.sub_model_type self),
           PyprModel.description = proto_field (Model.description self),
           PyprModel.directory = directory,
           PyprModel.created_at = py_str (Model.created_at self),
           PyprModel.modified_at = py_str (Model.modified_at self) \<rparr>)"

definition Model_from_proto :: "world \<Rightarrow> PyprModel \<Rightarrow> Model io" where
  "Model_from_proto w obj_proto =
     (let mid = or_None (PyprModel.model_id obj_proto);
          nm = or_None (PyprModel.name obj_proto);
          pid = or_None (PyprModel.project_id obj_proto);
          did = Some (PyprDirectory.directory_id (PyprModel.directory obj_proto))
      in bind_io (if truthy mid then Model_resolve_alias w mid pid else returns mid) (\<lambda>mid.
         bind_io (if truthy did then Model_resolve_directory_alias w did pid
                  else returns did) (\<lambda>did.
         let lvid = Some (PyprModel.latest_version_id obj_proto);
             mtype = (if PyprModel.model_type obj_proto \<noteq> []
                      then format_external_model_type_to_model_type w
                             (PyprModel.model_type obj_proto)
                      else None);
             smtype = or_None (PyprModel.sub_model_type obj_proto);
             descr = (if PyprModel.description obj_proto \<noteq> []
                      then Some (PyprModel.description obj_proto) else Some [])
         in bind_io (if PyprModel.created_at obj_proto \<noteq> []
                     then bind_io (pure_result (py_int (PyprModel.created_at obj_proto)))
                            (\<lambda>i. returns (Some i))
                     else returns None) (\<lambda>cat.
            bind_io (if PyprModel.modified_at obj_proto \<noteq> []
                     then bind_io (pure_result (py_int (PyprModel.modified_at obj_proto)))
                            (\<lambda>i. returns (Some i))
                     else returns None) (\<lambda>mat.
            let model = \<lparr> Model.model_id = mid,
                          Model.project_id = pid,
                          Model.name = nm,
                          Model.latest_version_id = lvid,
                          Model.model_type = mtype,
                          Model.sub_model_type = smtype,
                          Model.description = descr,
                          Model.directory_id = did,
                          Model.created_at = cat,
                          Model.modified_at = mat \<rparr>
            in bind_io (Model_validate w model) (\<lambda>_. returns model))))))"

section \<open>The requests of a cascading delete\<close>

text \<open>
  \<open>version_cascade r\<close> lists what deleting the version of row \<open>r\<close> sends: the re-pull
  of the version, the delete of its row, the delete of its aliases. \<open>model_cascade\<close>
  lists what deleting a model sends: the pull of the model and of its versions, the
  requests for every version in turn, then the delete of the model's row, of its
  directory in the object store, of its annotations and of its aliases.
  \<open>versions_served\<close> and \<open>cascade_served\<close> say that the collaborators answer each of
  these requests, at the point of the log where it is sent, without raising, and that
  a row fetched by identifier carries that identifier.
\<close>

definition version_cascade :: "ModelVersionRow \<Rightarrow> call list" where
  "version_cascade r =
     [DbQuery DatabaseType_service ServiceTableType_model_version True
        [(''version_id'', ArgStr (ModelVersionRow.version_id r)),
         (''model_id'', ArgStr (ModelVersionRow.model_id r))],
      DbDelete DatabaseType_service ServiceTableType_model_version
        [(''version_id'', ArgStr (ModelVersionRow.version_id r)),
         (''model_id'', ArgStr (ModelVersionRow.model_id r))],
      DeleteAliasForComponent (ModelVersionRow.version_id r)]"

fun versions_served :: "world \<Rightarrow> call list \<Rightarrow> ModelVersionRow list \<Rightarrow> bool" where
  "versions_served w h [] = True"
| "versions_served w h (r # rs) =
     (truthy (ModelVersionRow.version_id r)
      \<and> \<not> is_alias w (ModelVersionRow.version_id r)
      \<and> (case query_model_version_fetchone w h
                 [(''version_id'', ArgStr (ModelVersionRow.version_id r)),
                  (''model_id'', ArgStr (ModelVersionRow.model_id r))] of
            Inl e \<Rightarrow> False
          | Inr r' \<Rightarrow> ModelVersionRow.version_id r' = ModelVersionRow.version_id r
                     \<and> ModelVersionRow.model_id r' = ModelVersionRow.model_id r)
      \<and> database_delete w (h @ take 1 (version_cascade r)) ServiceTableType_model_version
            [(''version_id'', ArgStr (ModelVersionRow.version_id r)),
             (''model_id'', ArgStr (ModelVersionRow.model_id r))] = Inr ()
      \<and> delete_alias_for_component w (h @ take 2 (version_cascade r))
            (ModelVersionRow.version_id r) = Inr ()
      \<and> versions_served w (h @ version_cascade r) rs)"

definition model_cascade_head :: "string \<Rightarrow> call list" where
  "model_cascade_head mid =
     [DbQuery DatabaseType_service ServiceTableType_model True
        [(''model_id'', ArgStr (Some mid))],
      DbQuery DatabaseType_service ServiceTableType_model_version False
        [(''model_id'', ArgStr (Some mid)), (''model_ids'', ArgList None)]]"

definition model_cascade_tail :: "string \<Rightarrow> string \<Rightarrow> call list" where
  "model_cascade_tail mid pid =
     [DbDelete DatabaseType_service ServiceTableType_model [(''model_id'', ArgStr (Some mid))],
      ObjectStoreDeleteDirectory OBJECT_STORE_BUCKET_model (os_path_join pid mid),
      DbDelete DatabaseType_service ServiceTableType_annotation
        [(''component_type'', ArgType COMPONENT_TYPES_model),
         (''component_id'', ArgStr (Some mid))],
      DeleteAliasForComponent (Some mid)]"

definition model_cascade :: "string \<Rightarrow> string \<Rightarrow> ModelVersionRow list \<Rightarrow> call list" where
  "model_cascade mid pid rs =
     model_cascade_head mid @ concat (map version_cascade rs) @ model_cascade_tail mid pid"

definition cascade_served ::
    "world \<Rightarrow> call list \<Rightarrow> string \<Rightarrow> string \<Rightarrow> ModelVersionRow list \<Rightarrow> bool" where
  "cascade_served w h mid pid rs =
     (let h2 = h @ model_cascade_head mid;
          h3 = h2 @ concat (map version_cascade rs)
      in (case query_model_fetchone w h [(''model_id'', ArgStr (Some mid))] of
            Inl e \<Rightarrow> False
          | Inr row \<Rightarrow> ModelRow.model_id row = Some mid \<and> ModelRow.project_id row = Some pid)
         \<and> query_model_version_fetchall w (h @ take 1 (model_cascade_head mid))
              [(''model_id'', ArgStr (Some mid)), (''model_ids'', ArgList None)] = Inr rs
         \<and> versions_served w h2 rs
         \<and> database_delete w h3 ServiceTableType_model
              [(''model_id'', ArgStr (Some mid))] = Inr ()
         \<and> delete_directory w (h3 @ take 1 (model_cascade_tail mid pid))
              OBJECT_STORE_BUCKET_model (os_path_join pid mid) = Inr ()
         \<and> database_delete w (h3 @ take 2 (model_cascade_tail mid pid))
              ServiceTableType_annotation
              [(''component_type'', ArgType COMPONENT_TYPES_model),
               (''component_id'', ArgStr (Some mid))] = Inr ()
         \<and> delete_alias_for_component w (h3 @ take 3 (model_cascade_tail mid pid))
              (Some mid) = Inr ())"

section \<open>A small store to run the code on\<close>

text \<open>
  One project \<open>p1\<close> with the models \<open>m1\<close> (two versions, \<open>v1\<close> and \<open>v2\<close>, directory
  \<open>d1\<close>) and \<open>m2\<close>; the alias \<open>@churn\<close> stands for \<open>m1\<close>. Identifiers that start
  with \<open>@\<close> are aliases, and a name with a slash in it is not a file name.

  The store answers as the database client is documented to (\<open>_query\<close>: "Raises ...
  If fetchone and no model is found"): a query with \<open>fetchone=True\<close> raises when no row
  matches, a query with \<open>fetchone=False\<close> answers with the list of the rows that match,
  the empty list when none does, and raises nothing. So the directory query, which is a
  list query, always answers. Project \<open>p1\<close> has the model directory \<open>d1\<close>; its
  directory \<open>d9\<close> is one of another component type, so that no row matches a query
  for \<open>d9\<close> with the type model.
\<close>

definition row_m1 :: ModelRow where
  "row_m1 = \<lparr> ModelRow.model_id = Some ''m1'', ModelRow.project_id = Some ''p1'',
     ModelRow.name = Some ''churn'', ModelRow.latest_version_id = Some ''v2'',
     ModelRow.model_type = Some ''Linear'', ModelRow.sub_model_type = Some ''Lasso'',
     ModelRow.description = Some ''first model'', ModelRow.directory_id = Some ''d1'',
     ModelRow.created_at = Some 1672549140, ModelRow.modified_at = Some 1672549140 \<rparr>"

definition row_m2 :: ModelRow where
  "row_m2 = \<lparr> ModelRow.model_id = Some ''m2'', ModelRow.project_id = Some ''p1'',
     ModelRow.name = Some ''fraud'', ModelRow.latest_version_id = None,
     ModelRow.model_type = None, ModelRow.sub_model_type = None,
     ModelRow.description = None, ModelRow.directory_id = None,
     ModelRow.created_at = Some 1672549140, ModelRow.modified_at = Some 1672549140 \<rparr>"

definition row_version :: "string \<Rightarrow> string \<Rightarrow> ModelVersionRow" where
  "row_version vid label = \<lparr> ModelVersionRow.model_id = Some ''m1'',
     ModelVersionRow.version = Some label, ModelVersionRow.version_id = Some vid,
     ModelVersionRow.hyperparameters = None, ModelVersionRow.metrics = None,
     ModelVersionRow.fold_metrics = None,
     ModelVersionRow.created_at = Some 1672549140,
     ModelVersionRow.modified_at = Some 1672549140 \<rparr>"

definition demo_world :: world where
  "demo_world = \<lparr>
     is_alias = (\<lambda>i. case i of Some (c # _) \<Rightarrow> c = CHR ''@'' | _ \<Rightarrow> False),
     to_project_component_id = (\<lambda>h i p.
        if i = Some ''@churn'' \<and> p = Some ''p1'' then Inr (Some ''m1'')
        else Inl (NoProjectAliasException ''no such alias in the project'')),
     delete_alias_for_component = (\<lambda>h i. Inr ()),
     query_model_fetchone = (\<lambda>h kw.
        if kw = [(''model_id'', ArgStr (Some ''m1''))] then Inr row_m1
        else if kw = [(''model_id'', ArgStr (Some ''m2''))] then Inr row_m2
        else Inl (NoModelException ''Model not found'')),
     query_model_fetchall = (\<lambda>h kw.
        if map_of kw ''project_id'' = Some (ArgStr (Some ''p1'')) then Inr [row_m1, row_m2]
        else Inr []),
     query_model_version_fetchone = (\<lambda>h kw.
        if map_of kw ''version_id'' = Some (ArgStr (Some ''v1''))
        then Inr (row_version ''v1'' ''1.0'')
        else if map_of kw ''version_id'' = Some (ArgStr (Some ''v2''))
        then Inr (row_version ''v2'' ''2.0'')
        else Inl (NoModelException ''Model version not found'')),
     query_model_version_fetchall = (\<lambda>h kw.
        if map_of kw ''model_id'' = Some (ArgStr (Some ''m1''))
        then Inr [row_version ''v1'' ''1.0'', row_version ''v2'' ''2.0'']
        else Inr []),
     query_directory_fetchall = (\<lambda>h kw. Inr ()),
     database_delete = (\<lambda>h t kw. Inr ()),
     delete_directory = (\<lambda>h b path. Inr ()),
     validate_filename = (\<lambda>h n.
        if CHR ''/'' \<in> set (format_str n)
        then Inl (ValidationError ''[PV1100] invalid characters found'')
        else Inr ()),
     format_model_type_to_external_model_type = (\<lambda>t. Some t),
     format_external_model_type_to_model_type = (\<lambda>t. Some t) \<rparr>"


definition broken_world :: world where
  \<comment> \<open>the same store, except that the aliases of version \<open>v1\<close> cannot be deleted\<close>
  "broken_world = demo_world \<lparr> delete_alias_for_component :=
     (\<lambda>h i. if i = Some ''v1'' then Inl (DatabaseException ''connection lost'')
            else Inr ()) \<rparr>"

definition lenient_world :: world where
  \<comment> \<open>a store that finds \<open>m1\<close> and \<open>v1\<close> under every identifier, aliases included\<close>
  "lenient_world = demo_world \<lparr>
     query_model_fetchone := (\<lambda>h kw. Inr row_m1),
     query_model_version_fetchone := (\<lambda>h kw. Inr (row_version ''v1'' ''1.0'')) \<rparr>"

definition model_m1 :: Model where
  "model_m1 = Model_from_namedtuple row_m1"

definition model_m2 :: Model where
  "model_m2 = Model_from_namedtuple row_m2"

definition version_v1 :: ModelVersion where
  "version_v1 = ModelVersion_from_namedtuple (row_version ''v1'' ''1.0'')"

definition version_v2 :: ModelVersion where
  "version_v2 = ModelVersion_from_namedtuple (row_version ''v2'' ''2.0'')"

section \<open>Lemmas about the log\<close>

lemma fold_update_fresh:
  "distinct (map key rows) \<Longrightarrow> \<forall>r \<in> set rows. key r \<notin> fst ` set d \<Longrightarrow>
   fold (\<lambda>r d. AList.update (key r) r d) rows d = d @ map (\<lambda>r. (key r, r)) rows"
proof (induction rows arbitrary: d)
  case Nil
  show ?case by simp
next
  case (Cons r rows)
  have fresh: "key r \<notin> fst ` set d" using Cons.prems(2) by simp
  have upd: "AList.update (key r) r d = d @ [(key r, r)]"
    using fresh by (induction d) auto
  have "fold (\<lambda>r d. AList.update (key r) r d) rows (d @ [(key r, r)])
          = (d @ [(key r, r)]) @ map (\<lambda>r. (key r, r)) rows"
    using Cons.prems by (intro Cons.IH) (auto simp: image_iff)
  then show ?case by (simp add: upd)
qed

lemma dict_by_distinct:
  "distinct (map key rows) \<Longrightarrow> dict_by key rows = map (\<lambda>r. (key r, r)) rows"
  using fold_update_fresh [of key rows "[]"] by (simp add: dict_by_def)

lemma log_Model_validate_existing:
  "Model_validate_existing w m h = (r, h0) \<Longrightarrow>
   h0 = h \<or> h0 = h @ [DbQuery DatabaseType_service ServiceTableType_model True
                        [(''model_id'', ArgStr (Model.model_id m))]]"
  by (auto simp: Model_validate_existing_def Model_query_fetchone_def bind_io_def issue_def
        raise_def returns_def split: if_splits sum.splits)

lemma log_Model_validate_directory:
  "snd (Model_validate_directory w m h) =
     h @ (if truthy (Model.directory_id m)
          then [DbQuery DatabaseType_service ServiceTableType_directory False
                  [(''directory_id'', ArgStr (Model.directory_id m)),
                   (''project_id'', ArgStr (Model.project_id m)),
                   (''type'', ArgType COMPONENT_TYPES_model)]]
          else [])"
  by (simp add: Model_validate_directory_def except_def issue_def raise_def returns_def
        split: sum.splits error.splits)

lemma snd_bind_io:
  "snd (bind_io m f h) = (case m h of (Inl e, h') \<Rightarrow> h' | (Inr x, h') \<Rightarrow> snd (f x h'))"
  by (simp add: bind_io_def split: prod.splits sum.splits)

lemma log_Model_validate_name:
  assumes "truthy (Model.name m)"
    and "query_model_fetchall w h [(''project_id'', ArgStr (Model.project_id m))] = Inr rows"
    and "Model.name m \<notin> set [ModelRow.name model.
           model \<leftarrow> map snd (dict_by ModelRow.model_id rows),
           ModelRow.model_id model \<noteq> Model.model_id m \<and> truthy (ModelRow.name model)]"
  shows "snd (Model_validate_name w m h) =
     h @ DbQuery DatabaseType_service ServiceTableType_model False
            [(''project_id'', ArgStr (Model.project_id m))]
       # (if (case map_of (dict_by ModelRow.model_id rows) (Model.model_id m) of
                None \<Rightarrow> True | Some model \<Rightarrow> Model.name m \<noteq> ModelRow.name model)
          then [ValidateFilename (Model.name m)] else [])"
  using assms
  by (simp add: Model_validate_name_def Model_query_fetchall_def bind_io_def issue_def
        Let_def except_def raise_def returns_def
        split: sum.splits error.splits option.splits)


lemma log_Model_validate:
  assumes "Model_validate_existing w m h = (Inr (), h0)"
  shows "\<exists>dq. snd (Model_validate w m h) = snd (Model_validate_name w m h0) @ dq
           \<and> (\<forall>c \<in> set dq. \<exists>kw. c = DbQuery DatabaseType_service ServiceTableType_directory
                                        False kw)"
proof (cases "Model_validate_name w m h0")
  case (Pair r h1)
  show ?thesis
  proof (cases r)
    case (Inl e)
    with Pair assms have "snd (Model_validate w m h) = snd (Model_validate_name w m h0) @ []"
      by (simp add: Model_validate_def bind_io_def)
    then show ?thesis by (intro exI [of _ "[]"]) simp
  next
    case (Inr u)
    with Pair assms have "snd (Model_validate w m h) = snd (Model_validate_directory w m h1)"
      by (simp add: Model_validate_def bind_io_def)
    with Pair show ?thesis
      by (simp add: log_Model_validate_directory)
  qed
qed


lemma Model_validate_collision:
  assumes ex: "Model_validate_existing w m h = (Inr (), h0)"
    and nm: "truthy (Model.name m)"
    and q: "query_model_fetchall w h0 [(''project_id'', ArgStr (Model.project_id m))] = Inr rows"
    and r: "r \<in> set (map snd (dict_by ModelRow.model_id rows))"
      "ModelRow.model_id r \<noteq> Model.model_id m" "ModelRow.name r = Model.name m"
  shows "Model_validate w m h =
           (Inl (InvalidInputException
                   (''A model with name '' @ format_str (Model.name m) @ '' already exists'')),
            h0 @ [DbQuery DatabaseType_service ServiceTableType_model False
                    [(''project_id'', ArgStr (Model.project_id m))]])"
proof -
  have "truthy (ModelRow.name r)" using nm r(3) by simp
  with r have "Model.name m \<in> set [ModelRow.name model.
      model \<leftarrow> map snd (dict_by ModelRow.model_id rows),
      ModelRow.model_id model \<noteq> Model.model_id m \<and> truthy (ModelRow.name model)]"
    by force
  with ex nm q show ?thesis
    by (simp add: Model_validate_def Model_validate_name_def Model_query_fetchall_def
          bind_io_def issue_def raise_def Let_def)
qed

lemma Model_validate_filename_calls:
  assumes ex: "Model_validate_existing w m h = (Inr (), h0)"
    and nm: "truthy (Model.name m)"
    and q: "query_model_fetchall w h0 [(''project_id'', ArgStr (Model.project_id m))] = Inr rows"
    and nc: "\<not> (\<exists>r \<in> set (map snd (dict_by ModelRow.model_id rows)).
          ModelRow.model_id r \<noteq> Model.model_id m \<and> ModelRow.name r = Model.name m)"
  shows "set (issued (Model_validate w m) h) \<inter> range ValidateFilename =
      (if (case map_of (dict_by ModelRow.model_id rows) (Model.model_id m) of
                None \<Rightarrow> True | Some model \<Rightarrow> Model.name m \<noteq> ModelRow.name model)
       then {ValidateFilename (Model.name m)} else {})"
proof -
  from nc have notin: "Model.name m \<notin> set [ModelRow.name model.
        model \<leftarrow> map snd (dict_by ModelRow.model_id rows),
        ModelRow.model_id model \<noteq> Model.model_id m \<and> truthy (ModelRow.name model)]"
    by auto
  obtain dq where dq: "snd (Model_validate w m h) = snd (Model_validate_name w m h0) @ dq"
    "\<forall>c \<in> set dq. \<exists>kw. c = DbQuery DatabaseType_service ServiceTableType_directory False kw"
    using log_Model_validate [OF ex] by auto
  have h0: "h0 = h \<or> h0 = h @ [DbQuery DatabaseType_service ServiceTableType_model True
                        [(''model_id'', ArgStr (Model.model_id m))]]"
    by (rule log_Model_validate_existing [OF ex])
  have log: "snd (Model_validate w m h) =
     (h0 @ DbQuery DatabaseType_service ServiceTableType_model False
            [(''project_id'', ArgStr (Model.project_id m))]
       # (if (case map_of (dict_by ModelRow.model_id rows) (Model.model_id m) of
                None \<Rightarrow> True | Some model \<Rightarrow> Model.name m \<noteq> ModelRow.name model)
          then [ValidateFilename (Model.name m)] else [])) @ dq"
    using dq(1) log_Model_validate_name [OF nm q notin] by simp
  show ?thesis
    using h0 dq(2) unfolding issued_def log by (elim disjE) auto
qed

lemma log_ModelVersion_validate_existing:
  "ModelVersion_validate_existing w v h = (r, h0) \<Longrightarrow>
   h0 = h \<or> h0 = h @ [DbQuery DatabaseType_service ServiceTableType_model_version True
                        [(''version_id'', ArgStr (ModelVersion.version_id v))]]"
  by (auto simp: ModelVersion_validate_existing_def ModelVersion_query_fetchone_def
        bind_io_def issue_def raise_def returns_def split: if_splits sum.splits)

lemma log_ModelVersion_validate_version:
  assumes "truthy (ModelVersion.version v)"
    and "query_model_version_fetchall w h
           [(''model_id'', ArgStr (ModelVersion.model_id v))] = Inr rows"
    and "ModelVersion.version v \<notin> set [ModelVersionRow.version model_version.
           model_version \<leftarrow> map snd (dict_by ModelVersionRow.version_id rows),
           ModelVersionRow.version_id model_version \<noteq> ModelVersion.version_id v
           \<and> truthy (ModelVersionRow.version model_version)]"
  shows "snd (ModelVersion_validate_version w v h) =
     h @ DbQuery DatabaseType_service ServiceTableType_model_version False
            [(''model_id'', ArgStr (ModelVersion.model_id v))]
       # (if (case map_of (dict_by ModelVersionRow.version_id rows)
                     (ModelVersion.version_id v) of
                None \<Rightarrow> True
              | Some model_version \<Rightarrow>
                  ModelVersion.version v \<noteq> ModelVersionRow.version model_version)
          then [ValidateFilename (ModelVersion.version v)] else [])"
  using assms
  by (simp add: ModelVersion_validate_version_def ModelVersion_query_fetchall_def bind_io_def
        issue_def Let_def except_def raise_def returns_def
        split: sum.splits error.splits option.splits)

lemma ModelVersion_validate_collision:
  assumes ex: "ModelVersion_validate_existing w v h = (Inr (), h0)"
    and nm: "truthy (ModelVersion.version v)"
    and q: "query_model_version_fetchall w h0
              [(''model_id'', ArgStr (ModelVersion.model_id v))] = Inr rows"
    and r: "r \<in> set (map snd (dict_by ModelVersionRow.version_id rows))"
      "ModelVersionRow.version_id r \<noteq> ModelVersion.version_id v"
      "ModelVersionRow.version r = ModelVersion.version v"
  shows "ModelVersion_validate w v h =
           (Inl (InvalidInputException
                   (''A model version '' @ format_str (ModelVersion.version v)
                      @ '' already exists'')),
            h0 @ [DbQuery DatabaseType_service ServiceTableType_model_version False
                    [(''model_id'', ArgStr (ModelVersion.model_id v))]])"
proof -
  have "truthy (ModelVersionRow.version r)" using nm r(3) by simp
  with r have "ModelVersion.version v \<in> set [ModelVersionRow.version model_version.
      model_version \<leftarrow> map snd (dict_by ModelVersionRow.version_id rows),
      ModelVersionRow.version_id model_version \<noteq> ModelVersion.version_id v
      \<and> truthy (ModelVersionRow.version model_version)]"
    by force
  with ex nm q show ?thesis
    by (simp add: ModelVersion_validate_def ModelVersion_validate_version_def
          ModelVersion_query_fetchall_def bind_io_def issue_def raise_def Let_def)
qed

lemma ModelVersion_validate_filename_calls:
  assumes ex: "ModelVersion_validate_existing w v h = (Inr (), h0)"
    and nm: "truthy (ModelVersion.version v)"
    and q: "query_model_version_fetchall w h0
              [(''model_id'', ArgStr (ModelVersion.model_id v))] = Inr rows"
    and nc: "\<not> (\<exists>r \<in> set (map snd (dict_by ModelVersionRow.version_id rows)).
          ModelVersionRow.version_id r \<noteq> ModelVersion.version_id v
          \<and> ModelVersionRow.version r = ModelVersion.version v)"
  shows "set (issued (ModelVersion_validate w v) h) \<inter> range ValidateFilename =
      (if (case map_of (dict_by ModelVersionRow.version_id rows)
                     (ModelVersion.version_id v) of
                None \<Rightarrow> True
              | Some model_version \<Rightarrow>
                  ModelVersion.version v \<noteq> ModelVersionRow.version model_version)
       then {ValidateFilename (ModelVersion.version v)} else {})"
proof -
  from nc have notin: "ModelVersion.version v \<notin> set [ModelVersionRow.version model_version.
      model_version \<leftarrow> map snd (dict_by ModelVersionRow.version_id rows),
      ModelVersionRow.version_id model_version \<noteq> ModelVersion.version_id v
      \<and> truthy (ModelVersionRow.version model_version)]"
    by auto
  have h0: "h0 = h \<or> h0 = h @ [DbQuery DatabaseType_service ServiceTableType_model_version
                        True [(''version_id'', ArgStr (ModelVersion.version_id v))]]"
    by (rule log_ModelVersion_validate_existing [OF ex])
  have "snd (ModelVersion_validate w v h) = snd (ModelVersion_validate_version w v h0)"
    using ex by (simp add: ModelVersion_validate_def bind_io_def)
  then have log: "snd (ModelVersion_validate w v h) =
     h0 @ DbQuery DatabaseType_service ServiceTableType_model_version False
            [(''model_id'', ArgStr (ModelVersion.model_id v))]
       # (if (case map_of (dict_by ModelVersionRow.version_id rows)
                     (ModelVersion.version_id v) of
                None \<Rightarrow> True
              | Some model_version \<Rightarrow>
                  ModelVersion.version v \<noteq> ModelVersionRow.version model_version)
          then [ValidateFilename (ModelVersion.version v)] else [])"
    using log_ModelVersion_validate_version [OF nm q notin] by simp
  show ?thesis
    using h0 unfolding issued_def log by (elim disjE) auto
qed

lemma Model_validate_existing_log_eq:
  "Model_validate_existing w m h = (r, h0) \<Longrightarrow>
   h0 = (if truthy (Model.model_id m)
         then h @ [DbQuery DatabaseType_service ServiceTableType_model True
                     [(''model_id'', ArgStr (Model.model_id m))]]
         else h)"
  by (auto simp: Model_validate_existing_def Model_query_fetchone_def bind_io_def issue_def
        raise_def returns_def split: if_splits sum.splits)

lemma Model_validate_name_other_fetch:
  "Model_validate_name (w\<lparr>query_model_fetchone := f\<rparr>) m = Model_validate_name w m"
  by (simp add: Model_validate_name_def Model_query_fetchall_def Let_def
        cong del: if_weak_cong)

lemma Model_validate_directory_other_fetch:
  "Model_validate_directory (w\<lparr>query_model_fetchone := f\<rparr>) m = Model_validate_directory w m"
  by (simp add: Model_validate_directory_def)

lemma log_Model_validate_name_head:
  "truthy (Model.name m) \<Longrightarrow>
   \<exists>vf. snd (Model_validate_name w m h) =
     h @ DbQuery DatabaseType_service ServiceTableType_model False
            [(''project_id'', ArgStr (Model.project_id m))] # vf
     \<and> (\<forall>c \<in> set vf. c = ValidateFilename (Model.name m))"
  by (simp add: Model_validate_name_def Model_query_fetchall_def bind_io_def issue_def
        Let_def except_def raise_def returns_def
        split: sum.splits error.splits option.splits)

lemma Models_delete_each_append:
  "Models_delete_each w (pre @ post) h =
     (case Models_delete_each w pre h of
        (Inl e, h') \<Rightarrow> (Inl e, h')
      | (Inr u, h') \<Rightarrow> Models_delete_each w post h')"
proof (induction pre arbitrary: h)
  case Nil
  show ?case by (simp add: returns_def)
next
  case (Cons m pre)
  show ?case
    by (cases "Model_delete w m h") (auto simp: bind_io_def Cons.IH split: sum.splits)
qed

lemma ModelVersions_delete_each_append:
  "ModelVersions_delete_each w (pre @ post) h =
     (case ModelVersions_delete_each w pre h of
        (Inl e, h') \<Rightarrow> (Inl e, h')
      | (Inr u, h') \<Rightarrow> ModelVersions_delete_each w post h')"
proof (induction pre arbitrary: h)
  case Nil
  show ?case by (simp add: returns_def)
next
  case (Cons v pre)
  show ?case
    by (cases "ModelVersion_delete w v h") (auto simp: bind_io_def Cons.IH split: sum.splits)
qed

lemma ModelVersion_delete_served:
  assumes "truthy (ModelVersionRow.version_id r)"
    and "\<not> is_alias w (ModelVersionRow.version_id r)"
    and "query_model_version_fetchone w h
           [(''version_id'', ArgStr (ModelVersionRow.version_id r)),
            (''model_id'', ArgStr (ModelVersionRow.model_id r))] = Inr r'"
    and "ModelVersionRow.version_id r' = ModelVersionRow.version_id r"
    and "ModelVersionRow.model_id r' = ModelVersionRow.model_id r"
    and "database_delete w (h @ take 1 (version_cascade r)) ServiceTableType_model_version
            [(''version_id'', ArgStr (ModelVersionRow.version_id r)),
             (''model_id'', ArgStr (ModelVersionRow.model_id r))] = Inr ()"
    and "delete_alias_for_component w (h @ take 2 (version_cascade r))
            (ModelVersionRow.version_id r) = Inr ()"
  shows "ModelVersion_delete w (ModelVersion_from_namedtuple r) h = (Inr (), h @ version_cascade r)"
  using assms
  by (simp add: ModelVersion_delete_def ModelVersion_pull_def ModelVersion_resolve_alias_def
        ModelVersion_query_fetchone_def ModelVersion_delete_row_def
        ModelVersion_from_namedtuple_def version_cascade_def
        bind_io_def issue_def returns_def)

lemma ModelVersions_delete_each_served:
  "versions_served w h rs \<Longrightarrow>
   ModelVersions_delete_each w (map ModelVersion_from_namedtuple rs) h =
     (Inr (), h @ concat (map version_cascade rs))"
proof (induction rs arbitrary: h)
  case Nil
  show ?case by (simp add: returns_def)
next
  case (Cons r rs)
  from Cons.prems obtain r' where r':
    "query_model_version_fetchone w h
           [(''version_id'', ArgStr (ModelVersionRow.version_id r)),
            (''model_id'', ArgStr (ModelVersionRow.model_id r))] = Inr r'"
    "ModelVersionRow.version_id r' = ModelVersionRow.version_id r"
    "ModelVersionRow.model_id r' = ModelVersionRow.model_id r"
    by (auto split: sum.splits)
  have one: "ModelVersion_delete w (ModelVersion_from_namedtuple r) h =
      (Inr (), h @ version_cascade r)"
    using Cons.prems by (intro ModelVersion_delete_served [OF _ _ r']) simp_all
  have rest: "ModelVersions_delete_each w (map ModelVersion_from_namedtuple rs)
      (h @ version_cascade r) = (Inr (), (h @ version_cascade r) @ concat (map version_cascade rs))"
    using Cons.prems by (intro Cons.IH) simp
  show ?case using one rest by (simp add: bind_io_def)
qed

lemmas io_defs = returns_def raise_def bind_io_def except_def issue_def issued_def
  pure_result_def

lemmas Model_defs = Model_query_fetchone_def Model_query_fetchall_def Model_delete_row_def
  Model_validate_existing_def Model_validate_name_def Model_validate_directory_def
  Model_validate_def Model_resolve_alias_def Model_resolve_directory_alias_def
  Model_from_namedtuple_def Model_pull_def Model_delete_def

lemmas ModelVersion_defs = ModelVersion_query_fetchone_def ModelVersion_query_fetchall_def
  ModelVersion_delete_row_def ModelVersion_validate_existing_def
  ModelVersion_validate_version_def ModelVersion_validate_def ModelVersion_resolve_alias_def
  ModelVersion_from_namedtuple_def ModelVersion_pull_def ModelVersion_delete_def

lemmas collection_defs = ModelVersions_query_def ModelVersions_pull_def
  ModelVersions_delete_def Models_resolve_directory_alias_def Models_query_def
  Models_pull_def Models_delete_def

lemmas demo_defs = demo_world_def broken_world_def lenient_world_def row_m1_def row_m2_def
  row_version_def model_m1_def model_m2_def version_v1_def version_v2_def truthy_def
  format_str_def dict_by_def

lemma bind_io_Inr:
  "bind_io m f h = (Inr y, h') \<Longrightarrow> \<exists>x h1. m h = (Inr x, h1) \<and> f x h1 = (Inr y, h')"
  by (auto simp: bind_io_def split: prod.splits sum.splits)

lemma issue_Inr:
  "issue c answer h = (Inr y, h') \<Longrightarrow> answer h = Inr y \<and> h' = h @ [c]"
  by (auto simp: issue_def)

lemma log_ModelVersion_delete:
  "\<exists>cs. snd (ModelVersion_delete w v h) = h @ cs
        \<and> (\<forall>c \<in> set cs. \<forall>d kw. c \<noteq> DbDelete d ServiceTableType_annotation kw)"
  by (simp add: ModelVersion_delete_def ModelVersion_pull_def ModelVersion_resolve_alias_def
        ModelVersion_query_fetchone_def ModelVersion_delete_row_def
        bind_io_def issue_def raise_def returns_def split: sum.splits)

lemma ModelVersion_delete_Inr:
  assumes "ModelVersion_delete w v h = (Inr (), h')"
  shows "\<exists>row. query_model_version_fetchone w h
                 [(''version_id'', ArgStr (ModelVersion.version_id v)),
                  (''model_id'', ArgStr (ModelVersion.model_id v))] = Inr row
          \<and> h' = h @ [DbQuery DatabaseType_service ServiceTableType_model_version True
                         [(''version_id'', ArgStr (ModelVersion.version_id v)),
                          (''model_id'', ArgStr (ModelVersion.model_id v))],
                       DbDelete DatabaseType_service ServiceTableType_model_version
                         [(''version_id'', ArgStr (ModelVersionRow.version_id row)),
                          (''model_id'', ArgStr (ModelVersionRow.model_id row))],
                       DeleteAliasForComponent (ModelVersionRow.version_id row)]"
  using assms
  by (simp add: ModelVersion_delete_def ModelVersion_pull_def ModelVersion_resolve_alias_def
        ModelVersion_query_fetchone_def ModelVersion_delete_row_def
        ModelVersion_from_namedtuple_def
        bind_io_def issue_def raise_def returns_def split: sum.splits if_splits)

lemma Model_delete_Inr_full:
  assumes "Model_delete w m h = (Inr (), h')"
  shows "\<exists>row h2 a b.
           query_model_fetchone w h [(''model_id'', ArgStr (Model.model_id m))] = Inr row
           \<and> ModelRow.project_id row = Some a \<and> ModelRow.model_id row = Some b
           \<and> h' = h2 @ [DbDelete DatabaseType_service ServiceTableType_model
                           [(''model_id'', ArgStr (Some b))],
                         ObjectStoreDeleteDirectory OBJECT_STORE_BUCKET_model
                           (os_path_join a b),
                         DbDelete DatabaseType_service ServiceTableType_annotation
                           [(''component_type'', ArgType COMPONENT_TYPES_model),
                            (''component_id'', ArgStr (Some b))],
                         DeleteAliasForComponent (Some b)]"
  using assms
  by (auto simp add: Model_delete_def Model_delete_row_def Model_pull_def
        Model_resolve_alias_def Model_query_fetchone_def Model_from_namedtuple_def
        bind_io_def issue_def raise_def returns_def
        split: if_splits prod.splits sum.splits option.splits)

lemma Model_delete_Inr:
  assumes "Model_delete w m h = (Inr (), h')"
  shows "\<exists>row pre. query_model_fetchone w h [(''model_id'', ArgStr (Model.model_id m))] = Inr row
          \<and> h' = pre @ [DbDelete DatabaseType_service ServiceTableType_annotation
                           [(''component_type'', ArgType COMPONENT_TYPES_model),
                            (''component_id'', ArgStr (ModelRow.model_id row))],
                         DeleteAliasForComponent (ModelRow.model_id row)]"
proof -
  from Model_delete_Inr_full [OF assms] obtain row h2 a b where r:
    "query_model_fetchone w h [(''model_id'', ArgStr (Model.model_id m))] = Inr row"
    "ModelRow.model_id row = Some b"
    "h' = h2 @ [DbDelete DatabaseType_service ServiceTableType_model
                           [(''model_id'', ArgStr (Some b))],
                         ObjectStoreDeleteDirectory OBJECT_STORE_BUCKET_model
                           (os_path_join a b),
                         DbDelete DatabaseType_service ServiceTableType_annotation
                           [(''component_type'', ArgType COMPONENT_TYPES_model),
                            (''component_id'', ArgStr (Some b))],
                         DeleteAliasForComponent (Some b)]"
    by blast
  have "h' = (h2 @ [DbDelete DatabaseType_service ServiceTableType_model
                           [(''model_id'', ArgStr (Some b))],
                         ObjectStoreDeleteDirectory OBJECT_STORE_BUCKET_model
                           (os_path_join a b)])
       @ [DbDelete DatabaseType_service ServiceTableType_annotation
                           [(''component_type'', ArgType COMPONENT_TYPES_model),
                            (''component_id'', ArgStr (ModelRow.model_id row))],
                         DeleteAliasForComponent (ModelRow.model_id row)]"
    using r(2,3) by simp
  with r(1) show ?thesis by blast
qed

section \<open>Lemmas about printing and reading integers\<close>

lemma digit_char_value:
  assumes "d < 10"
  shows "is_digit (digit_char d)" and "(of_char (digit_char d) :: nat) - 48 = d"
    and "digit_char d \<noteq> CHR ''-''" and "digit_char d \<noteq> CHR ''+''"
    and "\<not> is_space (digit_char d)"
proof -
  from assms consider "d = 0" | "d = 1" | "d = 2" | "d = 3" | "d = 4" | "d = 5" | "d = 6"
    | "d = 7" | "d = 8" | "d = 9"
    by atomize_elim arith
  then have "is_digit (digit_char d) \<and> (of_char (digit_char d) :: nat) - 48 = d
      \<and> digit_char d \<noteq> CHR ''-'' \<and> digit_char d \<noteq> CHR ''+'' \<and> \<not> is_space (digit_char d)"
    by cases (simp_all add: digit_char_def is_digit_def is_space_def)
  then show "is_digit (digit_char d)" and "(of_char (digit_char d) :: nat) - 48 = d"
    and "digit_char d \<noteq> CHR ''-''" and "digit_char d \<noteq> CHR ''+''"
    and "\<not> is_space (digit_char d)"
    by simp_all
qed

lemma str_nat_nonempty: "str_nat n \<noteq> []"
  by (subst str_nat.simps) simp

lemma str_nat_chars:
  "c \<in> set (str_nat n) \<Longrightarrow> \<exists>d < 10. c = digit_char d"
proof (induction n rule: str_nat.induct)
  case (1 n)
  show ?case
  proof (cases "n < 10")
    case True
    with "1.prems" show ?thesis by (subst (asm) str_nat.simps) auto
  next
    case False
    from "1.prems" have "c \<in> set (str_nat (n div 10)) \<or> c = digit_char (n mod 10)"
      using False by (subst (asm) str_nat.simps) auto
    then show ?thesis
    proof
      assume "c \<in> set (str_nat (n div 10))"
      then show ?thesis using "1.IH" False by simp
    next
      assume "c = digit_char (n mod 10)"
      moreover have "n mod 10 < 10" by simp
      ultimately show ?thesis by blast
    qed
  qed
qed

lemma parse_digits_str_nat:
  "\<exists>k. parse_digits acc b (str_nat n @ ys) = parse_digits (acc * 10 ^ k + n) True ys"
proof (induction n arbitrary: acc b ys rule: str_nat.induct)
  case (1 n)
  show ?case
  proof (cases "n < 10")
    case True
    then have "parse_digits acc b (str_nat n @ ys) = parse_digits (acc * 10 ^ 1 + n) True ys"
      by (subst str_nat.simps) (simp add: digit_char_value)
    then show ?thesis by blast
  next
    case False
    have lt: "n mod 10 < 10" by simp
    from "1.IH" [OF False, of acc b "digit_char (n mod 10) # ys"] obtain k where
      k: "parse_digits acc b (str_nat (n div 10) @ digit_char (n mod 10) # ys) =
          parse_digits (acc * 10 ^ k + n div 10) True (digit_char (n mod 10) # ys)"
      by blast
    have "parse_digits acc b (str_nat n @ ys) =
        parse_digits acc b (str_nat (n div 10) @ digit_char (n mod 10) # ys)"
      using False by (subst str_nat.simps) simp
    also have "\<dots> = parse_digits ((acc * 10 ^ k + n div 10) * 10 + n mod 10) True ys"
      using k digit_char_value(1,2) [OF lt] by simp
    also have "(acc * 10 ^ k + n div 10) * 10 + n mod 10 = acc * 10 ^ Suc k + n"
      by (simp add: algebra_simps)
    finally show ?thesis by blast
  qed
qed

lemma parse_str_nat: "parse_digits 0 False (str_nat n) = Some n"
  using parse_digits_str_nat [of 0 False n "[]"] by auto

lemma strip_no_space:
  assumes "\<forall>c \<in> set s. \<not> is_space c"
  shows "strip s = s"
proof -
  have d: "dropWhile is_space xs = xs" if "\<forall>c \<in> set xs. \<not> is_space c" for xs
    using that by (cases xs) simp_all
  have "dropWhile is_space (rev s) = rev s" using assms by (intro d) simp
  then show ?thesis using d [OF assms] by (simp add: strip_def)
qed

lemma str_nat_no_space: "\<forall>c \<in> set (str_nat n). \<not> is_space c"
  using str_nat_chars digit_char_value(5) by blast

lemma hd_str_nat: "hd (str_nat n) \<noteq> CHR ''-''" "hd (str_nat n) \<noteq> CHR ''+''"
proof -
  have "hd (str_nat n) \<in> set (str_nat n)" using str_nat_nonempty by simp
  then obtain d where "d < 10" "hd (str_nat n) = digit_char d"
    using str_nat_chars by blast
  then show "hd (str_nat n) \<noteq> CHR ''-''" "hd (str_nat n) \<noteq> CHR ''+''"
    using digit_char_value(3,4) by simp_all
qed

lemma py_str_nonempty: "py_str x \<noteq> []"
  by (cases x) (simp_all add: py_str_def str_nat_nonempty)

lemma py_int_py_str_None:
  "py_int (py_str None) = Inl (ValueError ''invalid literal for int() with base 10'')"
  by (simp add: py_str_def py_int_def strip_def is_space_def is_digit_def)

lemma py_int_py_str: "py_int (py_str (Some i)) = Inr i"
proof (cases "i < 0")
  case True
  have sp: "\<not> is_space CHR ''-''" by (simp add: is_space_def)
  have "strip (CHR ''-'' # str_nat (nat (- i))) = CHR ''-'' # str_nat (nat (- i))"
    using str_nat_no_space sp by (intro strip_no_space) simp
  with True show ?thesis
    by (simp add: py_str_def py_int_def parse_str_nat)
next
  case False
  have "strip (str_nat (nat i)) = str_nat (nat i)"
    using str_nat_no_space by (intro strip_no_space)
  with False show ?thesis
    by (simp add: py_str_def py_int_def parse_str_nat str_nat_nonempty hd_str_nat)
qed

section \<open>Properties\<close>

text \<open>
  C3. \<open>resolve_alias\<close> of \<open>Model\<close> and of \<open>ModelVersion\<close>: an identifier that is not an
  alias comes back unchanged and nothing is sent to any collaborator; an alias without a
  project raises \<open>InvalidInputException\<close> "Project must be provided with an alias", again
  with nothing sent; an alias with a project sends one request to the alias resolver,
  for this identifier and this project, and the resolver's answer (the identifier it
  maps to, or the error it raises) is the result.
\<close>

theorem resolve_alias_cases:
  "(\<not> is_alias w i \<longrightarrow>
      Model_resolve_alias w i p h = (Inr i, h)
      \<and> ModelVersion_resolve_alias w i p h = (Inr i, h))
   \<and> (is_alias w i \<and> \<not> truthy p \<longrightarrow>
      Model_resolve_alias w i p h =
        (Inl (InvalidInputException ''Project must be provided with an alias''), h)
      \<and> ModelVersion_resolve_alias w i p h =
        (Inl (InvalidInputException ''Project must be provided with an alias''), h))
   \<and> (is_alias w i \<and> truthy p \<longrightarrow>
      Model_resolve_alias w i p h =
        (to_project_component_id w h i p, h @ [ToProjectComponentId i p])
      \<and> ModelVersion_resolve_alias w i p h =
        (to_project_component_id w h i p, h @ [ToProjectComponentId i p]))"
  by (simp add: Model_resolve_alias_def ModelVersion_resolve_alias_def returns_def raise_def
        issue_def)

theorem resolve_alias_cases_witness:
  "\<not> is_alias demo_world (Some ''m1'')
   \<and> Model_resolve_alias demo_world (Some ''m1'') None [] = (Inr (Some ''m1''), [])
   \<and> is_alias demo_world (Some ''@churn'') \<and> \<not> truthy None
   \<and> ModelVersion_resolve_alias demo_world (Some ''@churn'') None [] =
       (Inl (InvalidInputException ''Project must be provided with an alias''), [])
   \<and> truthy (Some ''p1'')
   \<and> Model_resolve_alias demo_world (Some ''@churn'') (Some ''p1'') [] =
       (Inr (Some ''m1''), [ToProjectComponentId (Some ''@churn'') (Some ''p1'')])
   \<and> Model_resolve_alias demo_world (Some ''@other'') (Some ''p1'') [] =
       (Inl (NoProjectAliasException ''no such alias in the project''),
        [ToProjectComponentId (Some ''@other'') (Some ''p1'')])"
  using resolve_alias_cases [of demo_world "Some ''m1''" None "[]"]
    resolve_alias_cases [of demo_world "Some ''@churn''" None "[]"]
    resolve_alias_cases [of demo_world "Some ''@churn''" "Some ''p1''" "[]"]
    resolve_alias_cases [of demo_world "Some ''@other''" "Some ''p1''" "[]"]
  by (simp add: demo_world_def truthy_def)

text \<open>
  C9. A pull without its identifying argument fails before anything is sent to the
  store or to the alias resolver (the log is unchanged): \<open>Model.pull\<close> and
  \<open>ModelVersion.pull\<close> raise \<open>NoModelException\<close> ("Model ID must be provided",
  "Version ID must be provided"), \<open>Models.pull\<close> without a project and
  \<open>ModelVersions.pull\<close> with neither a model id nor a list of model ids raise
  \<open>InvalidInputException\<close> ("Project ID must be provided",
  "Atleast one Model ID must be provided").
\<close>

theorem pull_without_id_fails_first:
  "(\<not> truthy mid \<longrightarrow>
      Model_pull w mid pid h = (Inl (NoModelException ''Model ID must be provided''), h))
   \<and> (\<not> truthy vid \<longrightarrow>
      ModelVersion_pull w vid mid' pid' h =
        (Inl (NoModelException ''Version ID must be provided''), h))
   \<and> (\<not> truthy pid'' \<longrightarrow>
      Models_pull w pid'' did h =
        (Inl (InvalidInputException ''Project ID must be provided''), h))
   \<and> (\<not> truthy mid'' \<and> (mids = None \<or> mids = Some []) \<longrightarrow>
      ModelVersions_pull w mid'' mids h =
        (Inl (InvalidInputException ''Atleast one Model ID must be provided''), h))"
  by (simp add: Model_pull_def ModelVersion_pull_def Models_pull_def ModelVersions_pull_def
        raise_def)

theorem pull_without_id_fails_first_witness:
  "\<not> truthy None \<and> \<not> truthy (Some [])
   \<and> Model_pull demo_world None None [] =
       (Inl (NoModelException ''Model ID must be provided''), [])
   \<and> ModelVersion_pull demo_world (Some []) None None [] =
       (Inl (NoModelException ''Version ID must be provided''), [])
   \<and> Models_pull demo_world None None [] =
       (Inl (InvalidInputException ''Project ID must be provided''), [])
   \<and> ModelVersions_pull demo_world None None [] =
       (Inl (InvalidInputException ''Atleast one Model ID must be provided''), [])"
  using pull_without_id_fails_first
    [of None demo_world None "[]" "Some []" None None None None None None]
  by (simp add: truthy_def)

text \<open>
  C8. \<open>Models.delete\<close> and \<open>ModelVersions.delete\<close> pull the whole collection and then
  delete its members one after the other, in the order of the pull. When the members
  before \<open>m\<close> have been deleted and the delete of \<open>m\<close> raises \<open>e\<close>, the collection
  delete raises this very \<open>e\<close> and its log ends where the delete of \<open>m\<close> stopped:
  nothing is sent for the members after \<open>m\<close>. When every member is deleted, the
  collection delete returns with the log the last member left.
\<close>

theorem collection_delete_stops_at_first_failure:
  "(Models_pull w pid did h = (Inr (pre @ m # post), h1)
      \<and> Models_delete_each w pre h1 = (Inr (), h2)
      \<and> Model_delete w m h2 = (Inl e, h3)
    \<longrightarrow> Models_delete w pid did h = (Inl e, h3))
   \<and> (ModelVersions_pull w mid None g = (Inr (vpre @ v # vpost), g1)
      \<and> ModelVersions_delete_each w vpre g1 = (Inr (), g2)
      \<and> ModelVersion_delete w v g2 = (Inl e', g3)
    \<longrightarrow> ModelVersions_delete w mid g = (Inl e', g3))
   \<and> (Models_pull w pid did h = (Inr ms, h1)
      \<and> Models_delete_each w ms h1 = (Inr (), h4)
    \<longrightarrow> Models_delete w pid did h = (Inr (), h4))
   \<and> (ModelVersions_pull w mid None g = (Inr vs, g1)
      \<and> ModelVersions_delete_each w vs g1 = (Inr (), g4)
    \<longrightarrow> ModelVersions_delete w mid g = (Inr (), g4))"
  by (simp add: Models_delete_def ModelVersions_delete_def bind_io_def
        Models_delete_each_append ModelVersions_delete_each_append)

theorem collection_delete_stops_at_first_failure_witness:
  "Models_pull broken_world (Some ''p1'') None [] =
     (Inr ([] @ model_m1 # [model_m2]),
      [DbQuery DatabaseType_service ServiceTableType_model False
         [(''project_id'', ArgStr (Some ''p1'')), (''directory_id'', ArgStr None)]])
   \<and> Model_delete broken_world model_m1
        [DbQuery DatabaseType_service ServiceTableType_model False
           [(''project_id'', ArgStr (Some ''p1'')), (''directory_id'', ArgStr None)]] =
       (Inl (DatabaseException ''connection lost''),
        DbQuery DatabaseType_service ServiceTableType_model False
           [(''project_id'', ArgStr (Some ''p1'')), (''directory_id'', ArgStr None)]
        # model_cascade_head ''m1'' @ version_cascade (row_version ''v1'' ''1.0''))
   \<and> Models_delete broken_world (Some ''p1'') None [] =
       (Inl (DatabaseException ''connection lost''),
        DbQuery DatabaseType_service ServiceTableType_model False
           [(''project_id'', ArgStr (Some ''p1'')), (''directory_id'', ArgStr None)]
        # model_cascade_head ''m1'' @ version_cascade (row_version ''v1'' ''1.0''))
   \<and> ModelVersions_pull broken_world (Some ''m1'') None [] =
       (Inr ([] @ version_v1 # [version_v2]), take 1 (tl (model_cascade_head ''m1'')))
   \<and> ModelVersions_delete broken_world (Some ''m1'') [] =
       (Inl (DatabaseException ''connection lost''),
        tl (model_cascade_head ''m1'') @ version_cascade (row_version ''v1'' ''1.0''))
   \<and> Models_delete demo_world (Some ''p1'') None [] =
       (Inr (),
        DbQuery DatabaseType_service ServiceTableType_model False
           [(''project_id'', ArgStr (Some ''p1'')), (''directory_id'', ArgStr None)]
        # model_cascade ''m1'' ''p1'' [row_version ''v1'' ''1.0'', row_version ''v2'' ''2.0'']
        @ model_cascade ''m2'' ''p1'' [])
   \<and> ModelVersions_delete demo_world (Some ''m1'') [] =
       (Inr (),
        tl (model_cascade_head ''m1'') @ version_cascade (row_version ''v1'' ''1.0'')
        @ version_cascade (row_version ''v2'' ''2.0''))"
proof -
  let ?q = "DbQuery DatabaseType_service ServiceTableType_model False
              [(''project_id'', ArgStr (Some ''p1'')), (''directory_id'', ArgStr None)]"
  let ?v1 = "version_cascade (row_version ''v1'' ''1.0'')"
  let ?v2 = "version_cascade (row_version ''v2'' ''2.0'')"
  have pull: "Models_pull broken_world (Some ''p1'') None [] =
      (Inr ([] @ model_m1 # [model_m2]), [?q])"
    by (simp add: collection_defs Model_defs io_defs demo_defs)
  have m1: "Model_delete broken_world model_m1 [?q] =
      (Inl (DatabaseException ''connection lost''), ?q # model_cascade_head ''m1'' @ ?v1)"
    by (simp add: collection_defs Model_defs ModelVersion_defs io_defs demo_defs
          model_cascade_head_def version_cascade_def)
  have vpull: "ModelVersions_pull broken_world (Some ''m1'') None [] =
      (Inr ([] @ version_v1 # [version_v2]), take 1 (tl (model_cascade_head ''m1'')))"
    by (simp add: collection_defs ModelVersion_defs io_defs demo_defs model_cascade_head_def)
  have v1: "ModelVersion_delete broken_world version_v1
      (take 1 (tl (model_cascade_head ''m1''))) =
      (Inl (DatabaseException ''connection lost''), tl (model_cascade_head ''m1'') @ ?v1)"
    by (simp add: ModelVersion_defs io_defs demo_defs model_cascade_head_def
          version_cascade_def)
  have dpull: "Models_pull demo_world (Some ''p1'') None [] = (Inr [model_m1, model_m2], [?q])"
    by (simp add: collection_defs Model_defs io_defs demo_defs)
  have dall: "Models_delete_each demo_world [model_m1, model_m2] [?q] =
      (Inr (), ?q # model_cascade ''m1'' ''p1''
                      [row_version ''v1'' ''1.0'', row_version ''v2'' ''2.0'']
                  @ model_cascade ''m2'' ''p1'' [])"
    by (simp add: collection_defs Model_defs ModelVersion_defs io_defs demo_defs
          model_cascade_def model_cascade_head_def model_cascade_tail_def
          version_cascade_def os_path_join_def)
  have dvpull: "ModelVersions_pull demo_world (Some ''m1'') None [] =
      (Inr [version_v1, version_v2], take 1 (tl (model_cascade_head ''m1'')))"
    by (simp add: collection_defs ModelVersion_defs io_defs demo_defs model_cascade_head_def)
  have dvall: "ModelVersions_delete_each demo_world [version_v1, version_v2]
      (take 1 (tl (model_cascade_head ''m1''))) =
      (Inr (), tl (model_cascade_head ''m1'') @ ?v1 @ ?v2)"
    by (simp add: ModelVersion_defs io_defs demo_defs model_cascade_head_def
          version_cascade_def)
  note fail = collection_delete_stops_at_first_failure
    [of broken_world "Some ''p1''" None "[]" "[]" model_m1 "[model_m2]" "[?q]" "[?q]"
        "DatabaseException ''connection lost''" "?q # model_cascade_head ''m1'' @ ?v1"
        "Some ''m1''" "[]" "[]" version_v1 "[version_v2]"
        "take 1 (tl (model_cascade_head ''m1''))" "take 1 (tl (model_cascade_head ''m1''))"
        "DatabaseException ''connection lost''" "tl (model_cascade_head ''m1'') @ ?v1"]
  note succeed = collection_delete_stops_at_first_failure
    [of demo_world "Some ''p1''" None "[]" _ _ _ "[?q]" _ _ _
        "Some ''m1''" "[]" _ _ _ "take 1 (tl (model_cascade_head ''m1''))" _ _ _
        "[model_m1, model_m2]"
        "?q # model_cascade ''m1'' ''p1''
               [row_version ''v1'' ''1.0'', row_version ''v2'' ''2.0'']
            @ model_cascade ''m2'' ''p1'' []"
        "[version_v1, version_v2]" "tl (model_cascade_head ''m1'') @ ?v1 @ ?v2"]
  show ?thesis
    using fail succeed pull m1 vpull v1 dpull dall dvpull dvall
    by (simp add: returns_def)
qed

text \<open>
  C1. Deleting a Model whose \<open>model_id\<close> is set and is not an alias, that exists in the
  store under project \<open>pid\<close> and owns the versions \<open>rs\<close>, the collaborators answering
  every request: \<open>Model.delete\<close> returns, and it has sent exactly \<open>model_cascade\<close>, that
  is the pull of the model and of its versions; for each version in turn its re-pull,
  the delete of its row and the delete of its aliases; then the delete of the Model's
  row; then one delete of the directory \<open>os.path.join(pid, mid)\<close> in the object store;
  then one delete of the annotations with component type model and component id \<open>mid\<close>;
  then one delete of the aliases of \<open>mid\<close>.
\<close>

theorem Model_delete_cascade:
  "Model.model_id self = Some mid \<and> mid \<noteq> [] \<and> \<not> is_alias w (Some mid) \<and>
   cascade_served w h mid pid rs
   \<longrightarrow> Model_delete w self h = (Inr (), h @ model_cascade mid pid rs)"
proof
  assume a: "Model.model_id self = Some mid \<and> mid \<noteq> [] \<and> \<not> is_alias w (Some mid) \<and>
   cascade_served w h mid pid rs"
  then have served: "cascade_served w h mid pid rs" by simp
  from served obtain row where row:
    "query_model_fetchone w h [(''model_id'', ArgStr (Some mid))] = Inr row"
    "ModelRow.model_id row = Some mid" "ModelRow.project_id row = Some pid"
    by (auto simp: cascade_served_def Let_def split: sum.splits)
  have pull: "Model_pull w (Some mid) None h =
      (Inr (Model_from_namedtuple row), h @ take 1 (model_cascade_head mid))"
    using a row
    by (simp add: Model_pull_def Model_resolve_alias_def Model_query_fetchone_def
          model_cascade_head_def truthy_def bind_io_def issue_def returns_def)
  have vs: "versions_served w (h @ model_cascade_head mid) rs"
    using served by (simp add: cascade_served_def Let_def)
  have q: "query_model_version_fetchall w (h @ take 1 (model_cascade_head mid))
              [(''model_id'', ArgStr (Some mid)), (''model_ids'', ArgList None)] = Inr rs"
    using served by (simp add: cascade_served_def Let_def)
  have children: "ModelVersions_delete w (Some mid) (h @ take 1 (model_cascade_head mid)) =
      (Inr (), h @ model_cascade_head mid @ concat (map version_cascade rs))"
    using a q ModelVersions_delete_each_served [OF vs]
    by (simp add: ModelVersions_delete_def ModelVersions_pull_def ModelVersions_query_def
          model_cascade_head_def truthy_def bind_io_def issue_def returns_def)
  have tail: "database_delete w (h @ model_cascade_head mid @ concat (map version_cascade rs))
        ServiceTableType_model [(''model_id'', ArgStr (Some mid))] = Inr ()"
    "delete_directory w ((h @ model_cascade_head mid @ concat (map version_cascade rs))
        @ take 1 (model_cascade_tail mid pid))
        OBJECT_STORE_BUCKET_model (os_path_join pid mid) = Inr ()"
    "database_delete w ((h @ model_cascade_head mid @ concat (map version_cascade rs))
        @ take 2 (model_cascade_tail mid pid))
        ServiceTableType_annotation
        [(''component_type'', ArgType COMPONENT_TYPES_model),
         (''component_id'', ArgStr (Some mid))] = Inr ()"
    "delete_alias_for_component w
        ((h @ model_cascade_head mid @ concat (map version_cascade rs))
        @ take 3 (model_cascade_tail mid pid)) (Some mid) = Inr ()"
    using served by (simp_all add: cascade_served_def Let_def)
  show "Model_delete w self h = (Inr (), h @ model_cascade mid pid rs)"
    using a pull children row(2,3) tail
    by (simp add: Model_delete_def Model_delete_row_def Model_from_namedtuple_def
          model_cascade_def model_cascade_tail_def bind_io_def issue_def)
qed

theorem Model_delete_cascade_witness:
  "Model.model_id model_m1 = Some ''m1'' \<and> ''m1'' \<noteq> [] \<and> \<not> is_alias demo_world (Some ''m1'')
   \<and> cascade_served demo_world [] ''m1'' ''p1''
        [row_version ''v1'' ''1.0'', row_version ''v2'' ''2.0'']
   \<and> Model_delete demo_world model_m1 [] =
       (Inr (),
        [DbQuery DatabaseType_service ServiceTableType_model True
           [(''model_id'', ArgStr (Some ''m1''))],
         DbQuery DatabaseType_service ServiceTableType_model_version False
           [(''model_id'', ArgStr (Some ''m1'')), (''model_ids'', ArgList None)],
         DbQuery DatabaseType_service ServiceTableType_model_version True
           [(''version_id'', ArgStr (Some ''v1'')), (''model_id'', ArgStr (Some ''m1''))],
         DbDelete DatabaseType_service ServiceTableType_model_version
           [(''version_id'', ArgStr (Some ''v1'')), (''model_id'', ArgStr (Some ''m1''))],
         DeleteAliasForComponent (Some ''v1''),
         DbQuery DatabaseType_service ServiceTableType_model_version True
           [(''version_id'', ArgStr (Some ''v2'')), (''model_id'', ArgStr (Some ''m1''))],
         DbDelete DatabaseType_service ServiceTableType_model_version
           [(''version_id'', ArgStr (Some ''v2'')), (''model_id'', ArgStr (Some ''m1''))],
         DeleteAliasForComponent (Some ''v2''),
         DbDelete DatabaseType_service ServiceTableType_model
           [(''model_id'', ArgStr (Some ''m1''))],
         ObjectStoreDeleteDirectory OBJECT_STORE_BUCKET_model ''p1/m1'',
         DbDelete DatabaseType_service ServiceTableType_annotation
           [(''component_type'', ArgType COMPONENT_TYPES_model),
            (''component_id'', ArgStr (Some ''m1''))],
         DeleteAliasForComponent (Some ''m1'')])"
proof -
  have served: "cascade_served demo_world [] ''m1'' ''p1''
        [row_version ''v1'' ''1.0'', row_version ''v2'' ''2.0'']"
    by (simp add: cascade_served_def model_cascade_head_def model_cascade_tail_def
          version_cascade_def demo_defs)
  have pre: "Model.model_id model_m1 = Some ''m1''" "\<not> is_alias demo_world (Some ''m1'')"
    by (simp_all add: demo_defs Model_from_namedtuple_def)
  show ?thesis
    using Model_delete_cascade [of model_m1 "''m1''" demo_world "[]" "''p1''"
        "[row_version ''v1'' ''1.0'', row_version ''v2'' ''2.0'']"] served pre
    by (simp add: model_cascade_def model_cascade_head_def model_cascade_tail_def
          version_cascade_def os_path_join_def row_version_def)
qed

text \<open>
  C7. \<open>validate\<close> of a Model (of a ModelVersion) whose \<open>model_id\<close> (\<open>version_id\<close>) is set
  first fetches the record with that identifier, and an error of the fetch (not found,
  when there is no such record) is the error of \<open>validate\<close>. When the record is found
  and the entity's own \<open>project_id\<close> (\<open>model_id\<close>) is set and differs from the record's,
  \<open>validate\<close> raises \<open>InvalidInputException\<close> "... does not belong to the specified ...".
  When the record is found, the parent is consistent and the identifier is still an
  alias, \<open>validate\<close> raises \<open>InvalidInputException\<close> "Resolve the alias before usage".
  In each case the fetch is the only request sent. An entity whose identifier is an
  alias is never accepted.
\<close>

theorem validate_existing_identity:
  "(truthy (Model.model_id m) \<and>
      query_model_fetchone w h [(''model_id'', ArgStr (Model.model_id m))] = Inl e
    \<longrightarrow> Model_validate w m h =
          (Inl e, h @ [DbQuery DatabaseType_service ServiceTableType_model True
                         [(''model_id'', ArgStr (Model.model_id m))]]))
   \<and> (truthy (Model.model_id m) \<and>
      query_model_fetchone w h [(''model_id'', ArgStr (Model.model_id m))] = Inr row \<and>
      truthy (Model.project_id m) \<and> Model.project_id m \<noteq> ModelRow.project_id row
    \<longrightarrow> Model_validate w m h =
          (Inl (InvalidInputException ''The model does not belong to the specified project''),
           h @ [DbQuery DatabaseType_service ServiceTableType_model True
                  [(''model_id'', ArgStr (Model.model_id m))]]))
   \<and> (truthy (Model.model_id m) \<and>
      query_model_fetchone w h [(''model_id'', ArgStr (Model.model_id m))] = Inr row \<and>
      \<not> (truthy (Model.project_id m) \<and> Model.project_id m \<noteq> ModelRow.project_id row) \<and>
      is_alias w (Model.model_id m)
    \<longrightarrow> Model_validate w m h =
          (Inl (InvalidInputException ''Resolve the alias before usage''),
           h @ [DbQuery DatabaseType_service ServiceTableType_model True
                  [(''model_id'', ArgStr (Model.model_id m))]]))
   \<and> (truthy (ModelVersion.version_id v) \<and>
      query_model_version_fetchone w h
        [(''version_id'', ArgStr (ModelVersion.version_id v))] = Inl e
    \<longrightarrow> ModelVersion_validate w v h =
          (Inl e, h @ [DbQuery DatabaseType_service ServiceTableType_model_version True
                         [(''version_id'', ArgStr (ModelVersion.version_id v))]]))
   \<and> (truthy (ModelVersion.version_id v) \<and>
      query_model_version_fetchone w h
        [(''version_id'', ArgStr (ModelVersion.version_id v))] = Inr vrow \<and>
      truthy (ModelVersion.model_id v) \<and>
      ModelVersion.model_id v \<noteq> ModelVersionRow.model_id vrow
    \<longrightarrow> ModelVersion_validate w v h =
          (Inl (InvalidInputException
                  ''The model version does not belong to the specified model''),
           h @ [DbQuery DatabaseType_service ServiceTableType_model_version True
                  [(''version_id'', ArgStr (ModelVersion.version_id v))]]))
   \<and> (truthy (ModelVersion.version_id v) \<and>
      query_model_version_fetchone w h
        [(''version_id'', ArgStr (ModelVersion.version_id v))] = Inr vrow \<and>
      \<not> (truthy (ModelVersion.model_id v) \<and>
         ModelVersion.model_id v \<noteq> ModelVersionRow.model_id vrow) \<and>
      is_alias w (ModelVersion.version_id v)
    \<longrightarrow> ModelVersion_validate w v h =
          (Inl (InvalidInputException ''Resolve the alias before usage''),
           h @ [DbQuery DatabaseType_service ServiceTableType_model_version True
                  [(''version_id'', ArgStr (ModelVersion.version_id v))]]))
   \<and> (truthy (Model.model_id m) \<and> is_alias w (Model.model_id m)
    \<longrightarrow> fst (Model_validate w m h) \<noteq> Inr ())
   \<and> (truthy (ModelVersion.version_id v) \<and> is_alias w (ModelVersion.version_id v)
    \<longrightarrow> fst (ModelVersion_validate w v h) \<noteq> Inr ())"
  by (simp add: Model_validate_def Model_validate_existing_def Model_query_fetchone_def
        ModelVersion_validate_def ModelVersion_validate_existing_def
        ModelVersion_query_fetchone_def bind_io_def issue_def raise_def
        split: sum.splits)

theorem validate_existing_identity_witness:
  "truthy (Some ''m9'')
   \<and> query_model_fetchone demo_world [] [(''model_id'', ArgStr (Some ''m9''))] =
       Inl (NoModelException ''Model not found'')
   \<and> Model_validate demo_world (model_m1 \<lparr> Model.model_id := Some ''m9'' \<rparr>) [] =
       (Inl (NoModelException ''Model not found''),
        [DbQuery DatabaseType_service ServiceTableType_model True
           [(''model_id'', ArgStr (Some ''m9''))]])
   \<and> Some ''p2'' \<noteq> ModelRow.project_id row_m1
   \<and> Model_validate demo_world (model_m1 \<lparr> Model.project_id := Some ''p2'' \<rparr>) [] =
       (Inl (InvalidInputException ''The model does not belong to the specified project''),
        [DbQuery DatabaseType_service ServiceTableType_model True
           [(''model_id'', ArgStr (Some ''m1''))]])
   \<and> is_alias lenient_world (Some ''@churn'')
   \<and> Model_validate lenient_world (model_m1 \<lparr> Model.model_id := Some ''@churn'' \<rparr>) [] =
       (Inl (InvalidInputException ''Resolve the alias before usage''),
        [DbQuery DatabaseType_service ServiceTableType_model True
           [(''model_id'', ArgStr (Some ''@churn''))]])
   \<and> ModelVersion_validate demo_world
        (version_v1 \<lparr> ModelVersion.version_id := Some ''v9'' \<rparr>) [] =
       (Inl (NoModelException ''Model version not found''),
        [DbQuery DatabaseType_service ServiceTableType_model_version True
           [(''version_id'', ArgStr (Some ''v9''))]])
   \<and> ModelVersion_validate demo_world
        (version_v1 \<lparr> ModelVersion.model_id := Some ''m2'' \<rparr>) [] =
       (Inl (InvalidInputException
               ''The model version does not belong to the specified model''),
        [DbQuery DatabaseType_service ServiceTableType_model_version True
           [(''version_id'', ArgStr (Some ''v1''))]])
   \<and> ModelVersion_validate lenient_world
        (version_v1 \<lparr> ModelVersion.version_id := Some ''@first'' \<rparr>) [] =
       (Inl (InvalidInputException ''Resolve the alias before usage''),
        [DbQuery DatabaseType_service ServiceTableType_model_version True
           [(''version_id'', ArgStr (Some ''@first''))]])"
  using
    validate_existing_identity
      [where m = "model_m1 \<lparr> Model.model_id := Some ''m9'' \<rparr>" and w = demo_world
         and h = "[]" and e = "NoModelException ''Model not found''" and row = row_m1
         and v = version_v1 and vrow = "row_version ''v1'' ''1.0''"]
    validate_existing_identity
      [where m = model_m1 and w = demo_world
         and h = "[]" and e = "NoModelException ''Model version not found''" and row = row_m1
         and v = "version_v1 \<lparr> ModelVersion.version_id := Some ''v9'' \<rparr>"
         and vrow = "row_version ''v1'' ''1.0''"]
    validate_existing_identity
      [where m = "model_m1 \<lparr> Model.project_id := Some ''p2'' \<rparr>" and w = demo_world
         and h = "[]" and e = "NoModelException ''Model not found''" and row = row_m1
         and v = "version_v1 \<lparr> ModelVersion.model_id := Some ''m2'' \<rparr>"
         and vrow = "row_version ''v1'' ''1.0''"]
    validate_existing_identity
      [where m = "model_m1 \<lparr> Model.model_id := Some ''@churn'' \<rparr>" and w = lenient_world
         and h = "[]" and e = "NoModelException ''Model not found''" and row = row_m1
         and v = "version_v1 \<lparr> ModelVersion.version_id := Some ''@first'' \<rparr>"
         and vrow = "row_version ''v1'' ''1.0''"]
  by (simp add: demo_defs Model_from_namedtuple_def ModelVersion_from_namedtuple_def)

lemma Model_validate_directory_outcome:
  "Model_validate_existing w m h = (Inr (), h0) \<and>
   Model_validate_name w m h0 = (Inr (), h1) \<and>
   truthy (Model.directory_id m)
   \<longrightarrow> snd (Model_validate w m h) =
         h1 @ [DbQuery DatabaseType_service ServiceTableType_directory False
                 [(''directory_id'', ArgStr (Model.directory_id m)),
                  (''project_id'', ArgStr (Model.project_id m)),
                  (''type'', ArgType COMPONENT_TYPES_model)]]
       \<and> fst (Model_validate w m h) =
         (case query_directory_fetchall w h1
                 [(''directory_id'', ArgStr (Model.directory_id m)),
                  (''project_id'', ArgStr (Model.project_id m)),
                  (''type'', ArgType COMPONENT_TYPES_model)] of
            Inl (NoDirectoryException msg) \<Rightarrow>
              Inl (InvalidInputException ''Model cannot be in different directory type'')
          | Inl e \<Rightarrow> Inl e
          | Inr u \<Rightarrow> Inr ())"
  by (auto simp: Model_validate_def Model_validate_directory_def bind_io_def issue_def
        raise_def except_def split: sum.splits error.splits)

text \<open>
  C6. \<open>validate\<close> of a Model whose \<open>directory_id\<close> is set sends, as its last request,
  one query to the directory table for this \<open>directory_id\<close>, the Model's own
  \<open>project_id\<close> and the component type model. The code turns a \<open>NoDirectoryException\<close>
  of that query into \<open>InvalidInputException\<close> "Model cannot be in different directory
  type" (lemma \<open>Model_validate_directory_outcome\<close>), but it sends the query with
  \<open>fetchone=False\<close> and does not read the answer. A list query raises nothing when no
  row matches, so the branch is never taken: for every store whose directory list query
  answers, the directory check returns whatever \<open>directory_id\<close> is, and on the sample
  store \<open>validate\<close> accepts model \<open>m1\<close> moved to \<open>d9\<close>, a directory of another type.
\<close>

theorem Model_validate_wrong_directory_accepted:
  "Model_validate demo_world (model_m1 \<lparr> Model.directory_id := Some ''d9'' \<rparr>) [] =
     (Inr (),
      [DbQuery DatabaseType_service ServiceTableType_model True
         [(''model_id'', ArgStr (Some ''m1''))],
       DbQuery DatabaseType_service ServiceTableType_model False
         [(''project_id'', ArgStr (Some ''p1''))],
       DbQuery DatabaseType_service ServiceTableType_directory False
         [(''directory_id'', ArgStr (Some ''d9'')),
          (''project_id'', ArgStr (Some ''p1'')),
          (''type'', ArgType COMPONENT_TYPES_model)]])
   \<and> fst (Model_validate_directory (w \<lparr> query_directory_fetchall := (\<lambda>h kw. Inr ()) \<rparr>) m h)
       = Inr ()"
proof
  show "Model_validate demo_world (model_m1 \<lparr> Model.directory_id := Some ''d9'' \<rparr>) [] =
     (Inr (),
      [DbQuery DatabaseType_service ServiceTableType_model True
         [(''model_id'', ArgStr (Some ''m1''))],
       DbQuery DatabaseType_service ServiceTableType_model False
         [(''project_id'', ArgStr (Some ''p1''))],
       DbQuery DatabaseType_service ServiceTableType_directory False
         [(''directory_id'', ArgStr (Some ''d9'')),
          (''project_id'', ArgStr (Some ''p1'')),
          (''type'', ArgType COMPONENT_TYPES_model)]])"
    by (simp add: Model_defs io_defs demo_defs)
  show "fst (Model_validate_directory
               (w \<lparr> query_directory_fetchall := (\<lambda>h kw. Inr ()) \<rparr>) m h) = Inr ()"
    by (simp add: Model_validate_directory_def except_def issue_def returns_def)
qed

text \<open>
  C2. \<open>validate\<close> of a Model with a non-empty \<open>name\<close> (of a ModelVersion with a non-empty
  \<open>version\<close>), once the check of the identifier has passed and the store has answered
  the query for the records of the same \<open>project_id\<close> (\<open>model_id\<close>) with \<open>rows\<close>. The
  records compared are those of the dictionary built from \<open>rows\<close> by identifier, which
  are \<open>rows\<close> themselves when no identifier occurs twice.
  \<^item> When a record with another identifier has the candidate name, \<open>validate\<close> raises
    \<open>InvalidInputException\<close> "... already exists", whether or not the name is the one on
    record for the entity itself.
  \<^item> Otherwise \<open>validate_filename\<close> is called if and only if no record with the entity's
    own identifier has the candidate name; so it is always called for an identifier
    that is not among the records, and not called for an unchanged name. It is called
    on the candidate name only.
\<close>

theorem validate_name_rule:
  "(Model_validate_existing w m h = (Inr (), h0) \<and>
    truthy (Model.name m) \<and>
    query_model_fetchall w h0 [(''project_id'', ArgStr (Model.project_id m))] = Inr rows
    \<longrightarrow>
      ((\<exists>r \<in> set (map snd (dict_by ModelRow.model_id rows)).
           ModelRow.model_id r \<noteq> Model.model_id m \<and> ModelRow.name r = Model.name m)
        \<longrightarrow> Model_validate w m h =
              (Inl (InvalidInputException
                      (''A model with name '' @ format_str (Model.name m)
                         @ '' already exists'')),
               h0 @ [DbQuery DatabaseType_service ServiceTableType_model False
                       [(''project_id'', ArgStr (Model.project_id m))]]))
      \<and> (\<not> (\<exists>r \<in> set (map snd (dict_by ModelRow.model_id rows)).
           ModelRow.model_id r \<noteq> Model.model_id m \<and> ModelRow.name r = Model.name m)
        \<longrightarrow> ((\<exists>n. ValidateFilename n \<in> set (issued (Model_validate w m) h))
               \<longleftrightarrow> (\<forall>r. map_of (dict_by ModelRow.model_id rows) (Model.model_id m) = Some r
                       \<longrightarrow> Model.name m \<noteq> ModelRow.name r))
            \<and> (\<forall>n. ValidateFilename n \<in> set (issued (Model_validate w m) h)
                  \<longrightarrow> n = Model.name m))
      \<and> (distinct (map ModelRow.model_id rows)
        \<longrightarrow> map snd (dict_by ModelRow.model_id rows) = rows))
   \<and> (ModelVersion_validate_existing w v g = (Inr (), g0) \<and>
    truthy (ModelVersion.version v) \<and>
    query_model_version_fetchall w g0
      [(''model_id'', ArgStr (ModelVersion.model_id v))] = Inr vrows
    \<longrightarrow>
      ((\<exists>r \<in> set (map snd (dict_by ModelVersionRow.version_id vrows)).
           ModelVersionRow.version_id r \<noteq> ModelVersion.version_id v
           \<and> ModelVersionRow.version r = ModelVersion.version v)
        \<longrightarrow> ModelVersion_validate w v g =
              (Inl (InvalidInputException
                      (''A model version '' @ format_str (ModelVersion.version v)
                         @ '' already exists'')),
               g0 @ [DbQuery DatabaseType_service ServiceTableType_model_version False
                       [(''model_id'', ArgStr (ModelVersion.model_id v))]]))
      \<and> (\<not> (\<exists>r \<in> set (map snd (dict_by ModelVersionRow.version_id vrows)).
           ModelVersionRow.version_id r \<noteq> ModelVersion.version_id v
           \<and> ModelVersionRow.version r = ModelVersion.version v)
        \<longrightarrow> ((\<exists>n. ValidateFilename n \<in> set (issued (ModelVersion_validate w v) g))
               \<longleftrightarrow> (\<forall>r. map_of (dict_by ModelVersionRow.version_id vrows)
                            (ModelVersion.version_id v) = Some r
                       \<longrightarrow> ModelVersion.version v \<noteq> ModelVersionRow.version r))
            \<and> (\<forall>n. ValidateFilename n \<in> set (issued (ModelVersion_validate w v) g)
                  \<longrightarrow> n = ModelVersion.version v))
      \<and> (distinct (map ModelVersionRow.version_id vrows)
        \<longrightarrow> map snd (dict_by ModelVersionRow.version_id vrows) = vrows))"
proof (rule conjI; intro impI conjI)
  assume a: "Model_validate_existing w m h = (Inr (), h0) \<and>
    truthy (Model.name m) \<and>
    query_model_fetchall w h0 [(''project_id'', ArgStr (Model.project_id m))] = Inr rows"
  then have ex: "Model_validate_existing w m h = (Inr (), h0)"
    and nm: "truthy (Model.name m)"
    and q: "query_model_fetchall w h0 [(''project_id'', ArgStr (Model.project_id m))] = Inr rows"
    by simp_all
  show "Model_validate w m h =
          (Inl (InvalidInputException
                  (''A model with name '' @ format_str (Model.name m) @ '' already exists'')),
           h0 @ [DbQuery DatabaseType_service ServiceTableType_model False
                   [(''project_id'', ArgStr (Model.project_id m))]])"
    if "\<exists>r \<in> set (map snd (dict_by ModelRow.model_id rows)).
          ModelRow.model_id r \<noteq> Model.model_id m \<and> ModelRow.name r = Model.name m"
    using that Model_validate_collision [OF ex nm q] by blast
  show "map snd (dict_by ModelRow.model_id rows) = rows"
    if "distinct (map ModelRow.model_id rows)"
    using that by (simp add: dict_by_distinct comp_def)
  assume nc: "\<not> (\<exists>r \<in> set (map snd (dict_by ModelRow.model_id rows)).
          ModelRow.model_id r \<noteq> Model.model_id m \<and> ModelRow.name r = Model.name m)"
  note iss = Model_validate_filename_calls [OF ex nm q nc]
  have mem: "ValidateFilename n \<in> set (issued (Model_validate w m) h) \<inter> range ValidateFilename"
    if "ValidateFilename n \<in> set (issued (Model_validate w m) h)" for n
    using that by simp
  show "(\<exists>n. ValidateFilename n \<in> set (issued (Model_validate w m) h))
          \<longleftrightarrow> (\<forall>r. map_of (dict_by ModelRow.model_id rows) (Model.model_id m) = Some r
                  \<longrightarrow> Model.name m \<noteq> ModelRow.name r)"
  proof
    assume "\<exists>n. ValidateFilename n \<in> set (issued (Model_validate w m) h)"
    then obtain n where "ValidateFilename n \<in> set (issued (Model_validate w m) h)" ..
    from mem [OF this] show "\<forall>r. map_of (dict_by ModelRow.model_id rows) (Model.model_id m)
        = Some r \<longrightarrow> Model.name m \<noteq> ModelRow.name r"
      unfolding iss by (simp split: if_splits option.splits)
  next
    assume "\<forall>r. map_of (dict_by ModelRow.model_id rows) (Model.model_id m) = Some r
                  \<longrightarrow> Model.name m \<noteq> ModelRow.name r"
    then have "set (issued (Model_validate w m) h) \<inter> range ValidateFilename =
        {ValidateFilename (Model.name m)}"
      unfolding iss by (simp split: option.splits)
    then show "\<exists>n. ValidateFilename n \<in> set (issued (Model_validate w m) h)" by blast
  qed
  show "\<forall>n. ValidateFilename n \<in> set (issued (Model_validate w m) h) \<longrightarrow> n = Model.name m"
  proof (intro allI impI)
    fix n
    assume "ValidateFilename n \<in> set (issued (Model_validate w m) h)"
    from mem [OF this] have "ValidateFilename n \<in> {ValidateFilename (Model.name m)}"
      unfolding iss by (simp split: if_splits)
    then show "n = Model.name m" by simp
  qed
next
  assume a: "ModelVersion_validate_existing w v g = (Inr (), g0) \<and>
    truthy (ModelVersion.version v) \<and>
    query_model_version_fetchall w g0
      [(''model_id'', ArgStr (ModelVersion.model_id v))] = Inr vrows"
  then have ex: "ModelVersion_validate_existing w v g = (Inr (), g0)"
    and nm: "truthy (ModelVersion.version v)"
    and q: "query_model_version_fetchall w g0
      [(''model_id'', ArgStr (ModelVersion.model_id v))] = Inr vrows"
    by simp_all
  show "ModelVersion_validate w v g =
          (Inl (InvalidInputException
                  (''A model version '' @ format_str (ModelVersion.version v)
                     @ '' already exists'')),
           g0 @ [DbQuery DatabaseType_service ServiceTableType_model_version False
                   [(''model_id'', ArgStr (ModelVersion.model_id v))]])"
    if "\<exists>r \<in> set (map snd (dict_by ModelVersionRow.version_id vrows)).
           ModelVersionRow.version_id r \<noteq> ModelVersion.version_id v
           \<and> ModelVersionRow.version r = ModelVersion.version v"
    using that ModelVersion_validate_collision [OF ex nm q] by blast
  show "map snd (dict_by ModelVersionRow.version_id vrows) = vrows"
    if "distinct (map ModelVersionRow.version_id vrows)"
    using that by (simp add: dict_by_distinct comp_def)
  assume nc: "\<not> (\<exists>r \<in> set (map snd (dict_by ModelVersionRow.version_id vrows)).
           ModelVersionRow.version_id r \<noteq> ModelVersion.version_id v
           \<and> ModelVersionRow.version r = ModelVersion.version v)"
  note iss = ModelVersion_validate_filename_calls [OF ex nm q nc]
  have mem: "ValidateFilename n
        \<in> set (issued (ModelVersion_validate w v) g) \<inter> range ValidateFilename"
    if "ValidateFilename n \<in> set (issued (ModelVersion_validate w v) g)" for n
    using that by simp
  show "(\<exists>n. ValidateFilename n \<in> set (issued (ModelVersion_validate w v) g))
          \<longleftrightarrow> (\<forall>r. map_of (dict_by ModelVersionRow.version_id vrows)
                       (ModelVersion.version_id v) = Some r
                  \<longrightarrow> ModelVersion.version v \<noteq> ModelVersionRow.version r)"
  proof
    assume "\<exists>n. ValidateFilename n \<in> set (issued (ModelVersion_validate w v) g)"
    then obtain n where "ValidateFilename n \<in> set (issued (ModelVersion_validate w v) g)" ..
    from mem [OF this] show "\<forall>r. map_of (dict_by ModelVersionRow.version_id vrows)
        (ModelVersion.version_id v) = Some r
        \<longrightarrow> ModelVersion.version v \<noteq> ModelVersionRow.version r"
      unfolding iss by (simp split: if_splits option.splits)
  next
    assume "\<forall>r. map_of (dict_by ModelVersionRow.version_id vrows)
                       (ModelVersion.version_id v) = Some r
                  \<longrightarrow> ModelVersion.version v \<noteq> ModelVersionRow.version r"
    then have "set (issued (ModelVersion_validate w v) g) \<inter> range ValidateFilename =
        {ValidateFilename (ModelVersion.version v)}"
      unfolding iss by (simp split: option.splits)
    then show "\<exists>n. ValidateFilename n \<in> set (issued (ModelVersion_validate w v) g)"
      by blast
  qed
  show "\<forall>n. ValidateFilename n \<in> set (issued (ModelVersion_validate w v) g)
          \<longrightarrow> n = ModelVersion.version v"
  proof (intro allI impI)
    fix n
    assume "ValidateFilename n \<in> set (issued (ModelVersion_validate w v) g)"
    from mem [OF this] have "ValidateFilename n \<in> {ValidateFilename (ModelVersion.version v)}"
      unfolding iss by (simp split: if_splits)
    then show "n = ModelVersion.version v" by simp
  qed
qed

theorem validate_name_rule_witness:
  "Model_validate_existing demo_world (model_m1 \<lparr> Model.name := Some ''fraud'' \<rparr>) [] =
     (Inr (), [DbQuery DatabaseType_service ServiceTableType_model True
                 [(''model_id'', ArgStr (Some ''m1''))]])
   \<and> truthy (Some ''fraud'')
   \<and> query_model_fetchall demo_world
        [DbQuery DatabaseType_service ServiceTableType_model True
           [(''model_id'', ArgStr (Some ''m1''))]]
        [(''project_id'', ArgStr (Some ''p1''))] = Inr [row_m1, row_m2]
   \<and> distinct (map ModelRow.model_id [row_m1, row_m2])
   \<and> row_m2 \<in> set (map snd (dict_by ModelRow.model_id [row_m1, row_m2]))
   \<and> ModelRow.model_id row_m2 \<noteq> Some ''m1'' \<and> ModelRow.name row_m2 = Some ''fraud''
   \<and> Model_validate demo_world (model_m1 \<lparr> Model.name := Some ''fraud'' \<rparr>) [] =
       (Inl (InvalidInputException ''A model with name fraud already exists''),
        [DbQuery DatabaseType_service ServiceTableType_model True
           [(''model_id'', ArgStr (Some ''m1''))],
         DbQuery DatabaseType_service ServiceTableType_model False
           [(''project_id'', ArgStr (Some ''p1''))]])
   \<and> map_of (dict_by ModelRow.model_id [row_m1, row_m2]) (Some ''m1'') = Some row_m1
   \<and> ModelRow.name row_m1 = Model.name model_m1
   \<and> ValidateFilename (Some ''churn'') \<notin> set (issued (Model_validate demo_world model_m1) [])
   \<and> ValidateFilename (Some ''a/b'')
        \<in> set (issued (Model_validate demo_world (model_m1 \<lparr> Model.name := Some ''a/b'' \<rparr>)) [])
   \<and> ModelVersion_validate_existing demo_world
        (version_v1 \<lparr> ModelVersion.version := Some ''2.0'' \<rparr>) [] =
       (Inr (), [DbQuery DatabaseType_service ServiceTableType_model_version True
                   [(''version_id'', ArgStr (Some ''v1''))]])
   \<and> ModelVersion_validate demo_world
        (version_v1 \<lparr> ModelVersion.version := Some ''2.0'' \<rparr>) [] =
       (Inl (InvalidInputException ''A model version 2.0 already exists''),
        [DbQuery DatabaseType_service ServiceTableType_model_version True
           [(''version_id'', ArgStr (Some ''v1''))],
         DbQuery DatabaseType_service ServiceTableType_model_version False
           [(''model_id'', ArgStr (Some ''m1''))]])
   \<and> ValidateFilename (Some ''1.0'')
        \<notin> set (issued (ModelVersion_validate demo_world version_v1) [])"
proof -
  let ?q1 = "DbQuery DatabaseType_service ServiceTableType_model True
               [(''model_id'', ArgStr (Some ''m1''))]"
  let ?g1 = "DbQuery DatabaseType_service ServiceTableType_model_version True
               [(''version_id'', ArgStr (Some ''v1''))]"
  let ?vrows = "[row_version ''v1'' ''1.0'', row_version ''v2'' ''2.0'']"
  have ex: "Model_validate_existing demo_world (model_m1 \<lparr> Model.name := n \<rparr>) [] =
      (Inr (), [?q1])" for n
    by (simp add: Model_defs io_defs demo_defs)
  have ex0: "Model_validate_existing demo_world model_m1 [] = (Inr (), [?q1])"
    by (simp add: Model_defs io_defs demo_defs)
  have q: "query_model_fetchall demo_world [?q1] [(''project_id'', ArgStr (Some ''p1''))] =
      Inr [row_m1, row_m2]"
    by (simp add: demo_defs)
  have d: "dict_by ModelRow.model_id [row_m1, row_m2] =
      [(Some ''m1'', row_m1), (Some ''m2'', row_m2)]"
    by (simp add: demo_defs)
  have vex: "ModelVersion_validate_existing demo_world
      (version_v1 \<lparr> ModelVersion.version := n \<rparr>) [] = (Inr (), [?g1])" for n
    by (simp add: ModelVersion_defs io_defs demo_defs)
  have vex0: "ModelVersion_validate_existing demo_world version_v1 [] = (Inr (), [?g1])"
    by (simp add: ModelVersion_defs io_defs demo_defs)
  have vq: "query_model_version_fetchall demo_world [?g1]
      [(''model_id'', ArgStr (Some ''m1''))] = Inr ?vrows"
    by (simp add: demo_defs)
  have vd: "dict_by ModelVersionRow.version_id ?vrows =
      [(Some ''v1'', row_version ''v1'' ''1.0''), (Some ''v2'', row_version ''v2'' ''2.0'')]"
    by (simp add: demo_defs)
  have f: "Model.model_id model_m1 = Some ''m1''" "Model.project_id model_m1 = Some ''p1''"
    "Model.name model_m1 = Some ''churn''" "ModelRow.model_id row_m1 = Some ''m1''"
    "ModelRow.model_id row_m2 = Some ''m2''" "ModelRow.name row_m1 = Some ''churn''"
    "ModelRow.name row_m2 = Some ''fraud''"
    by (simp_all add: demo_defs Model_from_namedtuple_def)
  have vf: "ModelVersion.version_id version_v1 = Some ''v1''"
    "ModelVersion.model_id version_v1 = Some ''m1''"
    "ModelVersion.version version_v1 = Some ''1.0''"
    "ModelVersionRow.version_id (row_version i l) = Some i"
    "ModelVersionRow.version (row_version i l) = Some l" for i l
    by (simp_all add: demo_defs ModelVersion_from_namedtuple_def)
  have t: "truthy (Some ''fraud'')" "truthy (Some ''churn'')" "truthy (Some ''a/b'')"
    "truthy (Some ''2.0'')" "truthy (Some ''1.0'')"
    by (simp_all add: truthy_def)
  have clash: "Model_validate demo_world (model_m1 \<lparr> Model.name := Some ''fraud'' \<rparr>) [] =
       (Inl (InvalidInputException ''A model with name fraud already exists''),
        [?q1, DbQuery DatabaseType_service ServiceTableType_model False
           [(''project_id'', ArgStr (Some ''p1''))]])"
    using validate_name_rule
      [where w = demo_world and m = "model_m1 \<lparr> Model.name := Some ''fraud'' \<rparr>"
         and h = "[]" and ?h0.0 = "[?q1]" and rows = "[row_m1, row_m2]"
         and v = version_v1 and g = "[]" and ?g0.0 = "[?g1]" and vrows = ?vrows]
    by (simp add: ex q d f t format_str_def)
  have same: "ValidateFilename (Some ''churn'')
      \<notin> set (issued (Model_validate demo_world model_m1) [])"
    using validate_name_rule
      [where w = demo_world and m = model_m1
         and h = "[]" and ?h0.0 = "[?q1]" and rows = "[row_m1, row_m2]"
         and v = version_v1 and g = "[]" and ?g0.0 = "[?g1]" and vrows = ?vrows]
    by (simp add: ex0 q d f t)
  have renamed: "ValidateFilename (Some ''a/b'')
      \<in> set (issued (Model_validate demo_world (model_m1 \<lparr> Model.name := Some ''a/b'' \<rparr>)) [])"
    using validate_name_rule
      [where w = demo_world and m = "model_m1 \<lparr> Model.name := Some ''a/b'' \<rparr>"
         and h = "[]" and ?h0.0 = "[?q1]" and rows = "[row_m1, row_m2]"
         and v = version_v1 and g = "[]" and ?g0.0 = "[?g1]" and vrows = ?vrows]
    by (auto simp add: ex q d f t)
  have vclash: "ModelVersion_validate demo_world
        (version_v1 \<lparr> ModelVersion.version := Some ''2.0'' \<rparr>) [] =
       (Inl (InvalidInputException ''A model version 2.0 already exists''),
        [?g1, DbQuery DatabaseType_service ServiceTableType_model_version False
           [(''model_id'', ArgStr (Some ''m1''))]])"
    using validate_name_rule
      [where w = demo_world and m = model_m1
         and h = "[]" and ?h0.0 = "[?q1]" and rows = "[row_m1, row_m2]"
         and v = "version_v1 \<lparr> ModelVersion.version := Some ''2.0'' \<rparr>"
         and g = "[]" and ?g0.0 = "[?g1]" and vrows = ?vrows]
    by (simp add: vex vq vd vf t format_str_def)
  have vsame: "ValidateFilename (Some ''1.0'')
      \<notin> set (issued (ModelVersion_validate demo_world version_v1) [])"
    using validate_name_rule
      [where w = demo_world and m = model_m1
         and h = "[]" and ?h0.0 = "[?q1]" and rows = "[row_m1, row_m2]"
         and v = version_v1 and g = "[]" and ?g0.0 = "[?g1]" and vrows = ?vrows]
    by (simp add: vex0 vq vd vf t)
  show ?thesis
    using clash same renamed vclash vsame
    by (simp add: ex q d vex f t)
qed

text \<open>
  C10. \<open>validate\<close> of a Model whose \<open>name\<close> is set, once the check of the identifier has
  passed: the next request is the query of the model table filtered by the Model's own
  \<open>project_id\<close> field, whatever it holds (\<open>None\<close> when the field is not set), and no
  other query for a list of models is sent. The record fetched by identifier has no
  influence beyond the consistency check: two stores that differ only in their answers
  to the fetch by identifier, both passing that check, give the same result and the
  same log.
\<close>

theorem validate_name_scope:
  "(Model_validate_existing w m h = (Inr (), h0) \<and> truthy (Model.name m) \<longrightarrow>
      (\<exists>rest. snd (Model_validate w m h) =
          h0 @ DbQuery DatabaseType_service ServiceTableType_model False
                 [(''project_id'', ArgStr (Model.project_id m))] # rest)
      \<and> (\<forall>kw. DbQuery DatabaseType_service ServiceTableType_model False kw
                  \<in> set (issued (Model_validate w m) h)
               \<longrightarrow> kw = [(''project_id'', ArgStr (Model.project_id m))]))
   \<and> (Model_validate_existing w m h = (Inr (), h0) \<and>
      Model_validate_existing (w\<lparr>query_model_fetchone := f\<rparr>) m h = (Inr (), h0')
      \<longrightarrow> Model_validate (w\<lparr>query_model_fetchone := f\<rparr>) m h = Model_validate w m h)"
proof (intro conjI impI allI)
  assume a: "Model_validate_existing w m h = (Inr (), h0) \<and>
      Model_validate_existing (w\<lparr>query_model_fetchone := f\<rparr>) m h = (Inr (), h0')"
  then have "h0' = h0"
    using Model_validate_existing_log_eq [of w m h "Inr ()" h0]
      Model_validate_existing_log_eq [of "w\<lparr>query_model_fetchone := f\<rparr>" m h "Inr ()" h0']
    by simp
  with a show "Model_validate (w\<lparr>query_model_fetchone := f\<rparr>) m h = Model_validate w m h"
    by (simp add: Model_validate_def bind_io_def Model_validate_name_other_fetch
          Model_validate_directory_other_fetch)
next
  assume a: "Model_validate_existing w m h = (Inr (), h0) \<and> truthy (Model.name m)"
  then have ex: "Model_validate_existing w m h = (Inr (), h0)" and nm: "truthy (Model.name m)"
    by simp_all
  obtain dq where dq: "snd (Model_validate w m h) = snd (Model_validate_name w m h0) @ dq"
    "\<forall>c \<in> set dq. \<exists>kw. c = DbQuery DatabaseType_service ServiceTableType_directory False kw"
    using log_Model_validate [OF ex] by auto
  obtain vf where vf: "snd (Model_validate_name w m h0) =
     h0 @ DbQuery DatabaseType_service ServiceTableType_model False
            [(''project_id'', ArgStr (Model.project_id m))] # vf"
     "\<forall>c \<in> set vf. c = ValidateFilename (Model.name m)"
    using log_Model_validate_name_head [OF nm, of w h0] by auto
  have log: "snd (Model_validate w m h) =
     h0 @ DbQuery DatabaseType_service ServiceTableType_model False
            [(''project_id'', ArgStr (Model.project_id m))] # (vf @ dq)"
    using dq(1) vf(1) by simp
  then show "\<exists>rest. snd (Model_validate w m h) =
          h0 @ DbQuery DatabaseType_service ServiceTableType_model False
                 [(''project_id'', ArgStr (Model.project_id m))] # rest"
    by blast
  have h0: "h0 = h \<or> h0 = h @ [DbQuery DatabaseType_service ServiceTableType_model True
                        [(''model_id'', ArgStr (Model.model_id m))]]"
    by (rule log_Model_validate_existing [OF ex])
  fix kw
  assume "DbQuery DatabaseType_service ServiceTableType_model False kw
                  \<in> set (issued (Model_validate w m) h)"
  then have "DbQuery DatabaseType_service ServiceTableType_model False kw \<in>
     insert (DbQuery DatabaseType_service ServiceTableType_model False
               [(''project_id'', ArgStr (Model.project_id m))]) (set vf \<union> set dq)"
    using h0 unfolding issued_def log by (elim disjE) auto
  then show "kw = [(''project_id'', ArgStr (Model.project_id m))]"
    using vf(2) dq(2) by auto
qed

theorem validate_name_scope_witness:
  "Model_validate_existing demo_world
       (model_m1 \<lparr> Model.project_id := None, Model.name := Some ''fraud'' \<rparr>) [] =
     (Inr (), [DbQuery DatabaseType_service ServiceTableType_model True
                 [(''model_id'', ArgStr (Some ''m1''))]])
   \<and> truthy (Some ''fraud'')
   \<and> ModelRow.project_id row_m1 = Some ''p1''
   \<and> Model_validate_existing
         (demo_world \<lparr> query_model_fetchone :=
            (\<lambda>h kw. Inr (row_m1 \<lparr> ModelRow.project_id := Some ''p2'' \<rparr>)) \<rparr>)
         (model_m1 \<lparr> Model.project_id := None, Model.name := Some ''fraud'' \<rparr>) [] =
     (Inr (), [DbQuery DatabaseType_service ServiceTableType_model True
                 [(''model_id'', ArgStr (Some ''m1''))]])
   \<and> Model_validate demo_world
         (model_m1 \<lparr> Model.project_id := None, Model.name := Some ''fraud'' \<rparr>) [] =
     (Inr (),
      [DbQuery DatabaseType_service ServiceTableType_model True
         [(''model_id'', ArgStr (Some ''m1''))],
       DbQuery DatabaseType_service ServiceTableType_model False
         [(''project_id'', ArgStr None)],
       ValidateFilename (Some ''fraud''),
       DbQuery DatabaseType_service ServiceTableType_directory False
         [(''directory_id'', ArgStr (Some ''d1'')), (''project_id'', ArgStr None),
          (''type'', ArgType COMPONENT_TYPES_model)]])
   \<and> Model_validate
         (demo_world \<lparr> query_model_fetchone :=
            (\<lambda>h kw. Inr (row_m1 \<lparr> ModelRow.project_id := Some ''p2'' \<rparr>)) \<rparr>)
         (model_m1 \<lparr> Model.project_id := None, Model.name := Some ''fraud'' \<rparr>) [] =
     Model_validate demo_world
         (model_m1 \<lparr> Model.project_id := None, Model.name := Some ''fraud'' \<rparr>) []"
proof -
  let ?m = "model_m1 \<lparr> Model.project_id := None, Model.name := Some ''fraud'' \<rparr>"
  let ?f = "\<lambda>(h :: call list) (kw :: kwargs). (Inr (row_m1 \<lparr> ModelRow.project_id := Some ''p2'' \<rparr>)
              :: error + ModelRow)"
  let ?q1 = "DbQuery DatabaseType_service ServiceTableType_model True
               [(''model_id'', ArgStr (Some ''m1''))]"
  have ex: "Model_validate_existing demo_world ?m [] = (Inr (), [?q1])"
    by (simp add: Model_defs io_defs demo_defs)
  have ex': "Model_validate_existing (demo_world \<lparr> query_model_fetchone := ?f \<rparr>) ?m [] =
      (Inr (), [?q1])"
    by (simp add: Model_defs io_defs demo_defs)
  have run: "Model_validate demo_world ?m [] =
     (Inr (),
      [?q1,
       DbQuery DatabaseType_service ServiceTableType_model False
         [(''project_id'', ArgStr None)],
       ValidateFilename (Some ''fraud''),
       DbQuery DatabaseType_service ServiceTableType_directory False
         [(''directory_id'', ArgStr (Some ''d1'')), (''project_id'', ArgStr None),
          (''type'', ArgType COMPONENT_TYPES_model)]])"
    by (simp add: Model_defs io_defs demo_defs)
  have same: "Model_validate (demo_world \<lparr> query_model_fetchone := ?f \<rparr>) ?m [] =
      Model_validate demo_world ?m []"
    using validate_name_scope [where w = demo_world and m = ?m and h = "[]"
        and ?h0.0 = "[?q1]" and ?h0' = "[?q1]" and f = ?f] ex ex'
    by simp
  show ?thesis
    using ex ex' run same by (simp add: truthy_def row_m1_def)
qed

text \<open>
  C5, as the code has it. \<open>Model.delete\<close>, when it returns, has ended with the delete of
  the annotations tagged with component type model and the identifier of the pulled
  record, followed by the delete of the aliases of that identifier.
  \<open>ModelVersion.delete\<close>, when it returns, has sent the re-pull of the version, the
  delete of its row and the delete of the aliases of the pulled record's \<open>version_id\<close>,
  and nothing else; it never sends a delete to the annotation table, whether it
  returns or raises.
\<close>

theorem delete_cleanup:
  "(Model_delete w m h = (Inr (), h') \<longrightarrow>
      (\<exists>row pre. query_model_fetchone w h [(''model_id'', ArgStr (Model.model_id m))] = Inr row
         \<and> h' = pre @ [DbDelete DatabaseType_service ServiceTableType_annotation
                          [(''component_type'', ArgType COMPONENT_TYPES_model),
                           (''component_id'', ArgStr (ModelRow.model_id row))],
                        DeleteAliasForComponent (ModelRow.model_id row)]))
   \<and> (ModelVersion_delete w v g = (Inr (), g') \<longrightarrow>
      (\<exists>vrow. query_model_version_fetchone w g
                 [(''version_id'', ArgStr (ModelVersion.version_id v)),
                  (''model_id'', ArgStr (ModelVersion.model_id v))] = Inr vrow
         \<and> g' = g @ [DbQuery DatabaseType_service ServiceTableType_model_version True
                        [(''version_id'', ArgStr (ModelVersion.version_id v)),
                         (''model_id'', ArgStr (ModelVersion.model_id v))],
                      DbDelete DatabaseType_service ServiceTableType_model_version
                        [(''version_id'', ArgStr (ModelVersionRow.version_id vrow)),
                         (''model_id'', ArgStr (ModelVersionRow.model_id vrow))],
                      DeleteAliasForComponent (ModelVersionRow.version_id vrow)]))
   \<and> DbDelete d ServiceTableType_annotation kw \<notin> set (issued (ModelVersion_delete w v) g)"
proof (intro conjI impI)
  show "\<exists>row pre. query_model_fetchone w h [(''model_id'', ArgStr (Model.model_id m))] = Inr row
         \<and> h' = pre @ [DbDelete DatabaseType_service ServiceTableType_annotation
                          [(''component_type'', ArgType COMPONENT_TYPES_model),
                           (''component_id'', ArgStr (ModelRow.model_id row))],
                        DeleteAliasForComponent (ModelRow.model_id row)]"
    if "Model_delete w m h = (Inr (), h')"
    by (rule Model_delete_Inr [OF that])
  show "\<exists>vrow. query_model_version_fetchone w g
                 [(''version_id'', ArgStr (ModelVersion.version_id v)),
                  (''model_id'', ArgStr (ModelVersion.model_id v))] = Inr vrow
         \<and> g' = g @ [DbQuery DatabaseType_service ServiceTableType_model_version True
                        [(''version_id'', ArgStr (ModelVersion.version_id v)),
                         (''model_id'', ArgStr (ModelVersion.model_id v))],
                      DbDelete DatabaseType_service ServiceTableType_model_version
                        [(''version_id'', ArgStr (ModelVersionRow.version_id vrow)),
                         (''model_id'', ArgStr (ModelVersionRow.model_id vrow))],
                      DeleteAliasForComponent (ModelVersionRow.version_id vrow)]"
    if "ModelVersion_delete w v g = (Inr (), g')"
    by (rule ModelVersion_delete_Inr [OF that])
  obtain cs where cs: "snd (ModelVersion_delete w v g) = g @ cs"
    "\<forall>c \<in> set cs. \<forall>d kw. c \<noteq> DbDelete d ServiceTableType_annotation kw"
    using log_ModelVersion_delete [of w v g] by blast
  show "DbDelete d ServiceTableType_annotation kw \<notin> set (issued (ModelVersion_delete w v) g)"
    using cs by (auto simp: issued_def)
qed

theorem delete_cleanup_witness:
  "Model_delete demo_world model_m2 [] =
     (Inr (),
      [DbQuery DatabaseType_service ServiceTableType_model True
         [(''model_id'', ArgStr (Some ''m2''))],
       DbQuery DatabaseType_service ServiceTableType_model_version False
         [(''model_id'', ArgStr (Some ''m2'')), (''model_ids'', ArgList None)],
       DbDelete DatabaseType_service ServiceTableType_model
         [(''model_id'', ArgStr (Some ''m2''))],
       ObjectStoreDeleteDirectory OBJECT_STORE_BUCKET_model ''p1/m2''] @
      [DbDelete DatabaseType_service ServiceTableType_annotation
         [(''component_type'', ArgType COMPONENT_TYPES_model),
          (''component_id'', ArgStr (ModelRow.model_id row_m2))],
       DeleteAliasForComponent (ModelRow.model_id row_m2)])
   \<and> query_model_fetchone demo_world [] [(''model_id'', ArgStr (Model.model_id model_m2))] =
       Inr row_m2
   \<and> ModelVersion_delete demo_world version_v2 [] =
     (Inr (),
      [DbQuery DatabaseType_service ServiceTableType_model_version True
         [(''version_id'', ArgStr (Some ''v2'')), (''model_id'', ArgStr (Some ''m1''))],
       DbDelete DatabaseType_service ServiceTableType_model_version
         [(''version_id'', ArgStr (Some ''v2'')), (''model_id'', ArgStr (Some ''m1''))],
       DeleteAliasForComponent (Some ''v2'')])
   \<and> DbDelete DatabaseType_service ServiceTableType_annotation
         [(''component_type'', ArgType COMPONENT_TYPES_model),
          (''component_id'', ArgStr (Some ''v2''))]
       \<notin> set (issued (ModelVersion_delete demo_world version_v2) [])"
proof -
  have m: "Model_delete demo_world model_m2 [] =
     (Inr (),
      [DbQuery DatabaseType_service ServiceTableType_model True
         [(''model_id'', ArgStr (Some ''m2''))],
       DbQuery DatabaseType_service ServiceTableType_model_version False
         [(''model_id'', ArgStr (Some ''m2'')), (''model_ids'', ArgList None)],
       DbDelete DatabaseType_service ServiceTableType_model
         [(''model_id'', ArgStr (Some ''m2''))],
       ObjectStoreDeleteDirectory OBJECT_STORE_BUCKET_model ''p1/m2'',
       DbDelete DatabaseType_service ServiceTableType_annotation
         [(''component_type'', ArgType COMPONENT_TYPES_model),
          (''component_id'', ArgStr (Some ''m2''))],
       DeleteAliasForComponent (Some ''m2'')])"
    by (simp add: Model_defs ModelVersion_defs collection_defs io_defs demo_defs
          os_path_join_def)
  have v: "ModelVersion_delete demo_world version_v2 [] =
     (Inr (),
      [DbQuery DatabaseType_service ServiceTableType_model_version True
         [(''version_id'', ArgStr (Some ''v2'')), (''model_id'', ArgStr (Some ''m1''))],
       DbDelete DatabaseType_service ServiceTableType_model_version
         [(''version_id'', ArgStr (Some ''v2'')), (''model_id'', ArgStr (Some ''m1''))],
       DeleteAliasForComponent (Some ''v2'')])"
    by (simp add: ModelVersion_defs io_defs demo_defs)
  have q: "query_model_fetchone demo_world []
      [(''model_id'', ArgStr (Model.model_id model_m2))] = Inr row_m2"
    "ModelRow.model_id row_m2 = Some ''m2''"
    by (simp_all add: demo_defs Model_from_namedtuple_def)
  show ?thesis
    using delete_cleanup [where w = demo_world and m = model_m2 and h = "[]"
        and v = version_v2 and g = "[]" and d = DatabaseType_service
        and kw = "[(''component_type'', ArgType COMPONENT_TYPES_model),
                   (''component_id'', ArgStr (Some ''v2''))]"] m v q
    by simp
qed

theorem ModelVersion_delete_annotations_counterexample:
  "ModelVersion_delete demo_world version_v1 [] =
     (Inr (),
      [DbQuery DatabaseType_service ServiceTableType_model_version True
         [(''version_id'', ArgStr (Some ''v1'')), (''model_id'', ArgStr (Some ''m1''))],
       DbDelete DatabaseType_service ServiceTableType_model_version
         [(''version_id'', ArgStr (Some ''v1'')), (''model_id'', ArgStr (Some ''m1''))],
       DeleteAliasForComponent (Some ''v1'')])"
  by (simp add: ModelVersion_defs io_defs demo_defs)

text \<open>
  C4, as the code has it. Take a Model built by \<open>from_namedtuple\<close> from a row in which
  \<open>model_id\<close>, \<open>project_id\<close>, \<open>name\<close> and \<open>sub_model_type\<close> are \<open>None\<close> or non-empty,
  \<open>latest_version_id\<close>, \<open>description\<close>, \<open>directory_id\<close>, \<open>created_at\<close> and \<open>modified_at\<close>
  are set, \<open>model_id\<close> and \<open>directory_id\<close> are not aliases, and \<open>model_type\<close> is \<open>None\<close>
  or a non-empty type that the two format functions take to a non-empty external type
  and back. Then \<open>from_proto\<close> of its \<open>to_proto\<close> does what \<open>validate\<close> does on the Model
  and, when \<open>validate\<close> passes, returns the Model itself: the ten fields are those of the
  original, the timestamps the same integers.
\<close>

theorem Model_wire_round_trip:
  "ModelRow.model_id row \<noteq> Some [] \<and> \<not> is_alias w (ModelRow.model_id row) \<and>
   ModelRow.project_id row \<noteq> Some [] \<and>
   ModelRow.name row \<noteq> Some [] \<and>
   ModelRow.sub_model_type row \<noteq> Some [] \<and>
   ModelRow.latest_version_id row \<noteq> None \<and>
   ModelRow.description row \<noteq> None \<and>
   ModelRow.directory_id row \<noteq> None \<and> \<not> is_alias w (ModelRow.directory_id row) \<and>
   (case ModelRow.model_type row of
      None \<Rightarrow> True
    | Some t \<Rightarrow> t \<noteq> [] \<and>
        (case format_model_type_to_external_model_type w t of
           None \<Rightarrow> False
         | Some x \<Rightarrow> x \<noteq> [] \<and> format_external_model_type_to_model_type w x = Some t)) \<and>
   ModelRow.created_at row \<noteq> None \<and>
   ModelRow.modified_at row \<noteq> None
   \<longrightarrow> Model_from_proto w (Model_to_proto w (Model_from_namedtuple row)) h =
         bind_io (Model_validate w (Model_from_namedtuple row))
           (\<lambda>_. returns (Model_from_namedtuple row)) h"
proof
  assume a: "ModelRow.model_id row \<noteq> Some [] \<and> \<not> is_alias w (ModelRow.model_id row) \<and>
   ModelRow.project_id row \<noteq> Some [] \<and>
   ModelRow.name row \<noteq> Some [] \<and>
   ModelRow.sub_model_type row \<noteq> Some [] \<and>
   ModelRow.latest_version_id row \<noteq> None \<and>
   ModelRow.description row \<noteq> None \<and>
   ModelRow.directory_id row \<noteq> None \<and> \<not> is_alias w (ModelRow.directory_id row) \<and>
   (case ModelRow.model_type row of
      None \<Rightarrow> True
    | Some t \<Rightarrow> t \<noteq> [] \<and>
        (case format_model_type_to_external_model_type w t of
           None \<Rightarrow> False
         | Some x \<Rightarrow> x \<noteq> [] \<and> format_external_model_type_to_model_type w x = Some t)) \<and>
   ModelRow.created_at row \<noteq> None \<and>
   ModelRow.modified_at row \<noteq> None"
  have field: "or_None (proto_field x) = x" if "x \<noteq> Some []" for x
    using that by (cases x) (simp_all add: or_None_def proto_field_def)
  obtain c where c: "ModelRow.created_at row = Some c"
    using a by (cases "ModelRow.created_at row") auto
  obtain d where d: "ModelRow.modified_at row = Some d"
    using a by (cases "ModelRow.modified_at row") auto
  obtain lv where lv: "ModelRow.latest_version_id row = Some lv"
    using a by (cases "ModelRow.latest_version_id row") auto
  obtain de where de: "ModelRow.description row = Some de"
    using a by (cases "ModelRow.description row") auto
  obtain di where di: "ModelRow.directory_id row = Some di"
    using a by (cases "ModelRow.directory_id row") auto
  let ?p = "Model_to_proto w (Model_from_namedtuple row)"
  have p1: "or_None (PyprModel.model_id ?p) = ModelRow.model_id row"
    "or_None (PyprModel.name ?p) = ModelRow.name row"
    "or_None (PyprModel.project_id ?p) = ModelRow.project_id row"
    "or_None (PyprModel.sub_model_type ?p) = ModelRow.sub_model_type row"
    using a by (simp_all add: Model_to_proto_def Model_from_namedtuple_def Let_def field)
  have p2: "PyprDirectory.directory_id (PyprModel.directory ?p) = di"
    "PyprModel.latest_version_id ?p = lv"
    "PyprModel.description ?p = de"
    using lv de di
    by (simp_all add: Model_to_proto_def Model_from_namedtuple_def Let_def proto_field_def)
  have p3: "PyprModel.created_at ?p = py_str (Some c)"
    "PyprModel.modified_at ?p = py_str (Some d)"
    using c d by (simp_all add: Model_to_proto_def Model_from_namedtuple_def Let_def)
  have p4: "(if PyprModel.model_type ?p \<noteq> []
             then format_external_model_type_to_model_type w (PyprModel.model_type ?p)
             else None) = ModelRow.model_type row"
    using a
    by (auto simp: Model_to_proto_def Model_from_namedtuple_def Let_def proto_field_def
          split: option.splits)
  have p5: "(if PyprModel.description ?p \<noteq> [] then Some (PyprModel.description ?p)
             else Some []) = Some de"
    using p2(3) by simp
  have na: "\<not> is_alias w (ModelRow.model_id row)" "\<not> is_alias w (Some di)"
    using a di by simp_all
  have "Model_from_proto w ?p h =
      bind_io (Model_validate w
        \<lparr> Model.model_id = ModelRow.model_id row,
          Model.project_id = ModelRow.project_id row,
          Model.name = ModelRow.name row,
          Model.latest_version_id = Some lv,
          Model.model_type = ModelRow.model_type row,
          Model.sub_model_type = ModelRow.sub_model_type row,
          Model.description = Some de,
          Model.directory_id = Some di,
          Model.created_at = Some c,
          Model.modified_at = Some d \<rparr>)
       (\<lambda>_. returns
        \<lparr> Model.model_id = ModelRow.model_id row,
          Model.project_id = ModelRow.project_id row,
          Model.name = ModelRow.name row,
          Model.latest_version_id = Some lv,
          Model.model_type = ModelRow.model_type row,
          Model.sub_model_type = ModelRow.sub_model_type row,
          Model.description = Some de,
          Model.directory_id = Some di,
          Model.created_at = Some c,
          Model.modified_at = Some d \<rparr>) h"
    unfolding Model_from_proto_def Let_def p5 unfolding p1 p2 p3 p4
    by (simp add: Model_resolve_alias_def Model_resolve_directory_alias_def na
          bind_io_def returns_def pure_result_def py_int_py_str py_str_nonempty)
  then show "Model_from_proto w ?p h =
         bind_io (Model_validate w (Model_from_namedtuple row))
           (\<lambda>_. returns (Model_from_namedtuple row)) h"
    by (simp add: Model_from_namedtuple_def c d lv de di)
qed

theorem Model_wire_round_trip_witness:
  "ModelRow.model_id row_m1 \<noteq> Some [] \<and> \<not> is_alias demo_world (ModelRow.model_id row_m1)
   \<and> ModelRow.description row_m1 \<noteq> None
   \<and> ModelRow.created_at row_m1 \<noteq> None
   \<and> Model_from_proto demo_world (Model_to_proto demo_world (Model_from_namedtuple row_m1)) [] =
       (Inr (Model_from_namedtuple row_m1),
        [DbQuery DatabaseType_service ServiceTableType_model True
           [(''model_id'', ArgStr (Some ''m1''))],
         DbQuery DatabaseType_service ServiceTableType_model False
           [(''project_id'', ArgStr (Some ''p1''))],
         DbQuery DatabaseType_service ServiceTableType_directory False
           [(''directory_id'', ArgStr (Some ''d1'')), (''project_id'', ArgStr (Some ''p1'')),
            (''type'', ArgType COMPONENT_TYPES_model)]])"
proof -
  have hyp: "ModelRow.model_id row_m1 \<noteq> Some [] \<and>
     \<not> is_alias demo_world (ModelRow.model_id row_m1) \<and>
     ModelRow.project_id row_m1 \<noteq> Some [] \<and>
     ModelRow.name row_m1 \<noteq> Some [] \<and>
     ModelRow.sub_model_type row_m1 \<noteq> Some [] \<and>
     ModelRow.latest_version_id row_m1 \<noteq> None \<and>
     ModelRow.description row_m1 \<noteq> None \<and>
     ModelRow.directory_id row_m1 \<noteq> None \<and>
     \<not> is_alias demo_world (ModelRow.directory_id row_m1) \<and>
     (case ModelRow.model_type row_m1 of
        None \<Rightarrow> True
      | Some t \<Rightarrow> t \<noteq> [] \<and>
          (case format_model_type_to_external_model_type demo_world t of
             None \<Rightarrow> False
           | Some x \<Rightarrow> x \<noteq> []
               \<and> format_external_model_type_to_model_type demo_world x = Some t)) \<and>
     ModelRow.created_at row_m1 \<noteq> None \<and>
     ModelRow.modified_at row_m1 \<noteq> None"
    by (simp add: demo_defs)
  have val: "Model_validate demo_world (Model_from_namedtuple row_m1) [] =
       (Inr (),
        [DbQuery DatabaseType_service ServiceTableType_model True
           [(''model_id'', ArgStr (Some ''m1''))],
         DbQuery DatabaseType_service ServiceTableType_model False
           [(''project_id'', ArgStr (Some ''p1''))],
         DbQuery DatabaseType_service ServiceTableType_directory False
           [(''directory_id'', ArgStr (Some ''d1'')), (''project_id'', ArgStr (Some ''p1'')),
            (''type'', ArgType COMPONENT_TYPES_model)]])"
    by (simp add: Model_defs io_defs demo_defs)
  show ?thesis
    using Model_wire_round_trip [where row = row_m1 and w = demo_world and h = "[]"] hyp
    by (simp add: val bind_io_def returns_def)
qed

theorem Model_wire_round_trip_counterexample:
  "Model_from_proto demo_world (Model_to_proto demo_world (Model_from_namedtuple row_m2)) [] =
     (Inr ((Model_from_namedtuple row_m2)
             \<lparr> Model.latest_version_id := Some [], Model.description := Some [],
               Model.directory_id := Some [] \<rparr>),
      [DbQuery DatabaseType_service ServiceTableType_model True
         [(''model_id'', ArgStr (Some ''m2''))],
       DbQuery DatabaseType_service ServiceTableType_model False
         [(''project_id'', ArgStr (Some ''p1''))]])
   \<and> Model.description (Model_from_namedtuple row_m2) = None
   \<and> Model.latest_version_id (Model_from_namedtuple row_m2) = None
   \<and> Model.directory_id (Model_from_namedtuple row_m2) = None"
  by (simp add: Model_from_proto_def Model_to_proto_def Model_defs io_defs demo_defs
        or_None_def proto_field_def py_int_py_str py_str_nonempty Let_def)


end
